theory Spec2Isabelle
  imports Complex_Main "HOL-Library.Sublist"
begin

chapter \<open>The model\<close>

section \<open>Python text\<close>

text \<open>
  A Python \<^verbatim>\<open>str\<close> is modelled as a \<^typ>\<open>string\<close> whose characters are read as code
  points below 256. On that range \<^verbatim>\<open>str.isspace\<close> (which is also what the regular
  expression class \<^verbatim>\<open>\s\<close> and \<^verbatim>\<open>str.strip()\<close> test) holds for the code points
  9 to 13, 28 to 32, 133 and 160, and \<^verbatim>\<open>str.lower()\<close> maps A to Z and the
  upper-case letters 192 to 222 (215, the multiplication sign, apart) to the code point
  32 above and leaves every other code point alone.
\<close>

definition isspace :: "char \<Rightarrow> bool" where
  "isspace c =
     (let n = (of_char c :: nat)
      in (9 \<le> n \<and> n \<le> 13) \<or> (28 \<le> n \<and> n \<le> 32) \<or> n = 133 \<or> n = 160)"

definition strip :: "string \<Rightarrow> string" where
  "strip s = rev (dropWhile isspace (rev (dropWhile isspace s)))"

definition lower_char :: "char \<Rightarrow> char" where
  "lower_char c =
     (let n = (of_char c :: nat)
      in if (65 \<le> n \<and> n \<le> 90) \<or> (192 \<le> n \<and> n \<le> 222 \<and> n \<noteq> 215)
         then char_of (n + 32) else c)"

definition lower :: "string \<Rightarrow> string" where
  "lower s = map lower_char s"

text \<open>\<^verbatim>\<open>s.split(",")\<close>: the pieces between the separators, an empty text giving one
  empty piece.\<close>

fun split_on :: "char \<Rightarrow> string \<Rightarrow> string list" where
  "split_on sep [] = [[]]"
| "split_on sep (c # cs) =
     (if c = sep then [] # split_on sep cs
      else (case split_on sep cs of
              [] \<Rightarrow> [[c]]
            | w # ws \<Rightarrow> (c # w) # ws))"

text \<open>\<^verbatim>\<open>str(n)\<close> for a natural number, as the f-string \<^verbatim>\<open>f"Item {i+1}"\<close> renders it.\<close>

definition digit_char :: "nat \<Rightarrow> char" where
  "digit_char d = char_of (48 + d)"

fun str_nat :: "nat \<Rightarrow> string" where
  "str_nat n = (if n < 10 then [digit_char n] else str_nat (n div 10) @ [digit_char (n mod 10)])"

declare str_nat.simps [simp del]

text \<open>
  \<^verbatim>\<open>re.sub(marker + r"\s*", "", text)\<close> for a non-empty literal marker: scanning from the
  left, every occurrence of the marker is dropped together with all the whitespace that
  follows it (the star is greedy), and the scan goes on behind what was dropped; any other
  character is kept.
\<close>

function sub_marker :: "string \<Rightarrow> string \<Rightarrow> string" where
  "sub_marker m [] = []"
| "sub_marker m (c # cs) =
     (if m \<noteq> [] \<and> prefix m (c # cs)
      then sub_marker m (dropWhile isspace (drop (length m) (c # cs)))
      else c # sub_marker m cs)"
  by pat_completeness auto
termination
proof (relation "measure (\<lambda>(m, s). length s)")
  show "wf (measure (\<lambda>(m, s). length s))" by simp
next
  fix m :: string and c :: char and cs :: string
  assume "m \<noteq> [] \<and> prefix m (c # cs)"
  then have "0 < length m" by simp
  moreover have "length (dropWhile isspace (drop (length m) (c # cs))) \<le> length (drop (length m) (c # cs))"
    by (rule length_dropWhile_le)
  ultimately show "((m, dropWhile isspace (drop (length m) (c # cs))), (m, c # cs)) \<in> measure (\<lambda>(m, s). length s)"
    by (cases "length m") auto
next
  fix m :: string and c :: char and cs :: string
  show "((m, cs), (m, c # cs)) \<in> measure (\<lambda>(m, s). length s)" by simp
qed

declare sub_marker.simps(2) [simp del]

section \<open>Values, exceptions and the metadata record\<close>

text \<open>What \<^verbatim>\<open>json.loads\<close> returns: \<^verbatim>\<open>None\<close>, a bool, an int, a float (read as the
  number it stands for), a str, a list or a dict (its items in order; a key is looked up
  with \<^const>\<open>map_of\<close>).\<close>

datatype json =
    JNull
  | JBool bool
  | JInt int
  | JFloat real
  | JString string
  | JArray "json list"
  | JObject "(string \<times> json) list"

text \<open>One line of a pydantic \<^verbatim>\<open>ValidationError\<close>: the location (the field, and the index
  of the item for an item of a list) and the kind of the error.\<close>

datatype err_type = Missing | ListType | StringType

datatype line_error = LineError (loc_field: string) (loc_index: "nat option") (err_type: err_type)

text \<open>
  The exceptions of the program. \<^verbatim>\<open>json.JSONDecodeError\<close> and pydantic's
  \<^verbatim>\<open>ValidationError\<close> are subclasses of \<^verbatim>\<open>ValueError\<close>; \<open>OtherError\<close> stands for
  every exception class outside \<^verbatim>\<open>ValueError\<close>, \<^verbatim>\<open>TypeError\<close>,
  \<^verbatim>\<open>AttributeError\<close> and \<^verbatim>\<open>ZeroDivisionError\<close> (the errors of the model service
  among them).
\<close>

datatype exn =
    ValueError string
  | JSONDecodeError string
  | ValidationError "line_error list"
  | TypeError string
  | AttributeError string
  | ZeroDivisionError
  | OtherError string

text \<open>\<^verbatim>\<open>except (ValueError, ValidationError, json.JSONDecodeError)\<close> in \<^verbatim>\<open>extract\<close>.\<close>

fun caught :: "exn \<Rightarrow> bool" where
  "caught (ValueError _) = True"
| "caught (JSONDecodeError _) = True"
| "caught (ValidationError _) = True"
| "caught _ = False"

record ContentMetadata =
  genres :: "string list"
  themes :: "string list"
  mood :: string
  target_audience :: string
  content_warnings :: "string list"

section \<open>The response parser\<close>

definition clean_json_response :: "string \<Rightarrow> string" where
  "clean_json_response response =
     (let cleaned = sub_marker ''```json'' response;
          cleaned = sub_marker ''```'' cleaned;
          cleaned = strip cleaned
      in cleaned)"

text \<open>\<^verbatim>\<open>_parse_response\<close>, with \<^verbatim>\<open>json.loads\<close> as the parameter \<open>loads\<close>: only a
  \<^verbatim>\<open>JSONDecodeError\<close> is turned into the \<^verbatim>\<open>ValueError\<close> of the parser.\<close>

definition parse_response :: "(string \<Rightarrow> exn + json) \<Rightarrow> string \<Rightarrow> exn + json" where
  "parse_response loads response =
     (let cleaned = clean_json_response response
      in case loads cleaned of
           Inr data \<Rightarrow> Inr data
         | Inl (JSONDecodeError e) \<Rightarrow>
             Inl (ValueError (''Invalid JSON response: '' @ e @ ''\<newline>Response was: '' @ cleaned))
         | Inl other \<Rightarrow> Inl other)"

section \<open>The schema validator\<close>

text \<open>
  \<^verbatim>\<open>ContentMetadata(**data)\<close> under pydantic 2 (the code calls \<^verbatim>\<open>model_json_schema\<close>
  and \<^verbatim>\<open>model_dump\<close>): a \<^verbatim>\<open>str\<close> field takes a str and nothing else that
  \<^verbatim>\<open>json.loads\<close> can return, a \<^verbatim>\<open>list[str]\<close> field takes a list whose items are all
  str, a field without a default must be present, keys that are no field are ignored, and
  the errors of all fields are collected, in the order of the fields.
\<close>

fun item_errors :: "string \<Rightarrow> nat \<Rightarrow> json list \<Rightarrow> line_error list" where
  "item_errors f i [] = []"
| "item_errors f i (JString s # xs) = item_errors f (Suc i) xs"
| "item_errors f i (x # xs) = LineError f (Some i) StringType # item_errors f (Suc i) xs"

fun item_strings :: "json list \<Rightarrow> string list" where
  "item_strings [] = []"
| "item_strings (JString s # xs) = s # item_strings xs"
| "item_strings (x # xs) = item_strings xs"

definition validate_list_str :: "string \<Rightarrow> json \<Rightarrow> line_error list + string list" where
  "validate_list_str f v =
     (case v of
        JArray xs \<Rightarrow>
          (if item_errors f 0 xs = [] then Inr (item_strings xs) else Inl (item_errors f 0 xs))
      | _ \<Rightarrow> Inl [LineError f None ListType])"

definition validate_str :: "string \<Rightarrow> json \<Rightarrow> line_error list + string" where
  "validate_str f v =
     (case v of
        JString s \<Rightarrow> Inr s
      | _ \<Rightarrow> Inl [LineError f None StringType])"

definition required_field ::
  "string \<Rightarrow> (string \<Rightarrow> json \<Rightarrow> line_error list + 'a) \<Rightarrow> (string \<times> json) list \<Rightarrow> line_error list + 'a" where
  "required_field f check kwargs =
     (case map_of kwargs f of
        None \<Rightarrow> Inl [LineError f None Missing]
      | Some v \<Rightarrow> check f v)"

definition default_field ::
  "string \<Rightarrow> (string \<Rightarrow> json \<Rightarrow> line_error list + 'a) \<Rightarrow> 'a \<Rightarrow> (string \<times> json) list \<Rightarrow> line_error list + 'a" where
  "default_field f check dflt kwargs =
     (case map_of kwargs f of
        None \<Rightarrow> Inr dflt
      | Some v \<Rightarrow> check f v)"

definition errors_of :: "line_error list + 'a \<Rightarrow> line_error list" where
  "errors_of r = (case r of Inl es \<Rightarrow> es | Inr _ \<Rightarrow> [])"

definition ContentMetadata_new :: "(string \<times> json) list \<Rightarrow> exn + ContentMetadata" where
  "ContentMetadata_new kwargs =
     (let g = required_field ''genres'' validate_list_str kwargs;
          t = required_field ''themes'' validate_list_str kwargs;
          m = required_field ''mood'' validate_str kwargs;
          a = required_field ''target_audience'' validate_str kwargs;
          w = default_field ''content_warnings'' validate_list_str [] kwargs
      in case (g, t, m, a, w) of
           (Inr gs, Inr ts, Inr mv, Inr av, Inr ws) \<Rightarrow>
             Inr \<lparr>genres = gs, themes = ts, mood = mv, target_audience = av,
                  content_warnings = ws\<rparr>
         | _ \<Rightarrow>
             Inl (ValidationError
                    (errors_of g @ errors_of t @ errors_of m @ errors_of a @ errors_of w)))"

text \<open>The name of a value's type, as the \<^verbatim>\<open>TypeError\<close> of a call with \<^verbatim>\<open>**\<close> prints it.\<close>

fun type_name :: "json \<Rightarrow> string" where
  "type_name JNull = ''NoneType''"
| "type_name (JBool _) = ''bool''"
| "type_name (JInt _) = ''int''"
| "type_name (JFloat _) = ''float''"
| "type_name (JString _) = ''str''"
| "type_name (JArray _) = ''list''"
| "type_name (JObject _) = ''dict''"

text \<open>\<^verbatim>\<open>_validate\<close>: the call \<^verbatim>\<open>ContentMetadata(**data)\<close> raises \<^verbatim>\<open>TypeError\<close> when
  \<open>data\<close> is no mapping.\<close>

definition validate :: "json \<Rightarrow> exn + ContentMetadata" where
  "validate data =
     (case data of
        JObject kwargs \<Rightarrow> ContentMetadata_new kwargs
      | _ \<Rightarrow>
          Inl (TypeError (''ContentMetadata() argument after ** must be a mapping, not ''
                           @ type_name data)))"

section \<open>Prompts\<close>

text \<open>\<^verbatim>\<open>EXTRACTION_PROMPT.format(description=..., schema=...)\<close> and
  \<^verbatim>\<open>RETRY_PROMPT.format(error=..., description=...)\<close>: the templates of
  \<^verbatim>\<open>prompts.py\<close> with the doubled braces of the example read as single ones.\<close>

definition EXTRACTION_PROMPT_format :: "string \<Rightarrow> string \<Rightarrow> string" where
  \<open>EXTRACTION_PROMPT_format description schema =
     ''You are a content metadata extraction system for a streaming platform.\<newline>'' @
     ''\<newline>'' @
     ''Extract the following from the show/movie description:\<newline>'' @
     ''- genres: List of applicable genres (Drama, Comedy, Thriller, Horror, Sci-Fi, Romance, Documentary, Action, Animation, Mystery, Crime, Fantasy, Adventure, Family)\<newline>'' @
     ''- themes: Key themes present (family, revenge, love, survival, identity, justice, power, friendship, betrayal, redemption, loss, coming-of-age, corruption, freedom)\<newline>'' @
     ''- mood: Overall tone (dark, lighthearted, suspenseful, tense, heartwarming, eerie, comedic, dramatic, inspiring, melancholic, thrilling)\<newline>'' @
     ''- target_audience: Primary audience (kids, teens, adults, family)\<newline>'' @
     ''- content_warnings: Any potentially sensitive content (violence, language, sexual content, drug use, death, gore, frightening scenes). Use an empty list if none are apparent.\<newline>'' @
     ''\<newline>'' @
     ''IMPORTANT RULES:\<newline>'' @
     ''- Return ONLY valid JSON. No markdown, no backticks, no explanation.\<newline>'' @
     ''- genres and themes should each have 1-4 items.\<newline>'' @
     ''- mood should be a single word or short phrase.\<newline>'' @
     ''- target_audience should be exactly one of: kids, teens, adults, family.\<newline>'' @
     ''- Base your extraction ONLY on what the description states or strongly implies.\<newline>'' @
     ''\<newline>'' @
     ''EXAMPLE:\<newline>'' @
     ''Description: "A brilliant group of students become card-counting experts with the intent of swindling millions out of Las Vegas casinos by playing blackjack."\<newline>'' @
     ''Output:\<newline>'' @
     ''{"genres": ["Drama", "Thriller", "Crime"], "themes": ["ambition", "deception", "risk"], "mood": "thrilling", "target_audience": "adults", "content_warnings": ["gambling"]}\<newline>'' @
     ''\<newline>'' @
     ''Now extract metadata from:\<newline>'' @
     ''Description: '' @
     description @
     ''\<newline>'' @
     ''\<newline>'' @
     schema\<close>

definition RETRY_PROMPT_format :: "string \<Rightarrow> string \<Rightarrow> string" where
  \<open>RETRY_PROMPT_format error_text description =
     ''Your previous response was not valid JSON or did not match the required schema.\<newline>'' @
     ''Error: '' @
     error_text @
     ''\<newline>'' @
     ''\<newline>'' @
     ''Please try again. Return ONLY valid JSON with these exact fields:\<newline>'' @
     ''- genres: list of strings\<newline>'' @
     ''- themes: list of strings  \<newline>'' @
     ''- mood: string\<newline>'' @
     ''- target_audience: string (one of: kids, teens, adults, family)\<newline>'' @
     ''- content_warnings: list of strings\<newline>'' @
     ''\<newline>'' @
     ''Description: '' @
     description @
     ''\<newline>'' @
     ''\<newline>'' @
     ''Respond with ONLY the JSON object, no other text.''\<close>

section \<open>The extraction engine\<close>

text \<open>
  A \<^verbatim>\<open>NetflixExtractor\<close> and what it calls. The model service is the method
  \<^verbatim>\<open>_call_api\<close> (the tests replace it by a mock): called in a state of the service with a
  prompt, it returns the text of the response or raises, and leaves the service in a new
  state. \<^verbatim>\<open>max_retries\<close> is the attribute that \<^verbatim>\<open>__init__\<close> sets to 2. Three
  library functions are parameters: \<^verbatim>\<open>json.loads\<close>, the text of
  \<^verbatim>\<open>json.dumps(ContentMetadata.model_json_schema(), indent=2)\<close>, and \<^verbatim>\<open>str\<close> of a
  pydantic \<^verbatim>\<open>ValidationError\<close>. Printing to the console is left out.
\<close>

record 's NetflixExtractor =
  call_api :: "'s \<Rightarrow> string \<Rightarrow> (exn + string) \<times> 's"
  max_retries :: nat
  json_loads :: "string \<Rightarrow> exn + json"
  schema_json :: string
  validation_error_str :: "line_error list \<Rightarrow> string"

definition get_schema_string :: "'s NetflixExtractor \<Rightarrow> string" where
  "get_schema_string self = ''Required JSON schema: '' @ schema_json self"

text \<open>\<^verbatim>\<open>str(last_error)\<close>; \<^verbatim>\<open>last_error\<close> is \<^verbatim>\<open>None\<close> until an attempt has failed.\<close>

fun exn_str :: "'s NetflixExtractor \<Rightarrow> exn \<Rightarrow> string" where
  "exn_str self (ValueError msg) = msg"
| "exn_str self (JSONDecodeError msg) = msg"
| "exn_str self (ValidationError errs) = validation_error_str self errs"
| "exn_str self (TypeError msg) = msg"
| "exn_str self (AttributeError msg) = msg"
| "exn_str self ZeroDivisionError = ''division by zero''"
| "exn_str self (OtherError msg) = msg"

fun str_last_error :: "'s NetflixExtractor \<Rightarrow> exn option \<Rightarrow> string" where
  "str_last_error self None = ''None''"
| "str_last_error self (Some e) = exn_str self e"

record ExtractionResult =
  metadata :: "ContentMetadata option"
  raw_response :: "string option"
  retries :: nat
  success :: bool
  error :: "string option"

text \<open>
  The body of the \<^verbatim>\<open>try\<close> block of one attempt: call, parse, validate. It gives the
  exception or the record, the text bound to \<^verbatim>\<open>raw_response\<close> by this attempt (none when
  the call raised), and the new state of the service.
\<close>

definition try_body ::
  "'s NetflixExtractor \<Rightarrow> string \<Rightarrow> 's \<Rightarrow> (exn + ContentMetadata) \<times> string option \<times> 's" where
  "try_body self prompt s =
     (case call_api self s prompt of
        (Inl e, s') \<Rightarrow> (Inl e, None, s')
      | (Inr raw, s') \<Rightarrow>
          (case parse_response (json_loads self) raw of
             Inl e \<Rightarrow> (Inl e, Some raw, s')
           | Inr data \<Rightarrow>
               (case validate data of
                  Inl e \<Rightarrow> (Inl e, Some raw, s')
                | Inr md \<Rightarrow> (Inr md, Some raw, s'))))"

text \<open>
  The loop \<^verbatim>\<open>for attempt in range(1 + self.max_retries)\<close> over the attempts that are
  left, with the local variables \<^verbatim>\<open>prompt\<close>, \<^verbatim>\<open>last_error\<close> and \<^verbatim>\<open>raw_response\<close>
  (\<open>None\<close> while it is unbound), and the \<^verbatim>\<open>return\<close> behind the loop. An exception that
  the \<^verbatim>\<open>except\<close> clause does not catch leaves \<^verbatim>\<open>extract\<close> (\<open>Inl\<close>).
\<close>

fun extract_loop ::
  "'s NetflixExtractor \<Rightarrow> string \<Rightarrow> nat list \<Rightarrow> string \<Rightarrow> exn option \<Rightarrow> string option \<Rightarrow> 's
     \<Rightarrow> (exn + ExtractionResult) \<times> 's" where
  "extract_loop self description [] prompt last_error raw s =
     (Inr \<lparr>metadata = None, raw_response = raw, retries = max_retries self, success = False,
           error = Some (str_last_error self last_error)\<rparr>, s)"
| "extract_loop self description (attempt # rest) prompt last_error raw s =
     (let prompt = (if attempt > 0
                    then RETRY_PROMPT_format (str_last_error self last_error) description
                    else prompt)
      in case try_body self prompt s of
           (Inr md, bound, s') \<Rightarrow>
             (Inr \<lparr>metadata = Some md, raw_response = bound, retries = attempt, success = True,
                   error = None\<rparr>, s')
         | (Inl e, bound, s') \<Rightarrow>
             (if caught e
              then extract_loop self description rest prompt (Some e)
                     (case bound of None \<Rightarrow> raw | Some r \<Rightarrow> Some r) s'
              else (Inl e, s')))"

definition "extract" ::
  "'s NetflixExtractor \<Rightarrow> string \<Rightarrow> 's \<Rightarrow> (exn + ExtractionResult) \<times> 's" where
  "extract self description s =
     (let schema_str = get_schema_string self;
          prompt = EXTRACTION_PROMPT_format description schema_str
      in extract_loop self description [0..<1 + max_retries self] prompt None None s)"

section \<open>The batch runner\<close>

text \<open>An item is a dict from text to text; a result of the batch is the result of
  \<^verbatim>\<open>extract\<close> with the keys \<^verbatim>\<open>title\<close> and \<^verbatim>\<open>description\<close> added.\<close>

record BatchResult = ExtractionResult +
  title :: string
  description :: string

definition with_item :: "ExtractionResult \<Rightarrow> string \<Rightarrow> string \<Rightarrow> BatchResult" where
  "with_item r t d =
     \<lparr>metadata = metadata r, raw_response = raw_response r, retries = retries r,
      success = success r, error = error r, title = t, description = d\<rparr>"

definition item_title :: "nat \<Rightarrow> (string \<rightharpoonup> string) \<Rightarrow> string" where
  "item_title i item = (case item ''title'' of Some t \<Rightarrow> t | None \<Rightarrow> ''Item '' @ str_nat (i + 1))"

definition item_description :: "(string \<rightharpoonup> string) \<Rightarrow> string" where
  "item_description item = (case item ''description'' of Some d \<Rightarrow> d | None \<Rightarrow> [])"

text \<open>\<^verbatim>\<open>for i, item in enumerate(descriptions)\<close>, from index \<open>i\<close> on, with the list
  \<^verbatim>\<open>results\<close> built so far. An exception that leaves \<^verbatim>\<open>extract\<close> leaves the batch.\<close>

fun extract_batch_loop ::
  "'s NetflixExtractor \<Rightarrow> nat \<Rightarrow> (string \<rightharpoonup> string) list \<Rightarrow> BatchResult list \<Rightarrow> 's
     \<Rightarrow> (exn + BatchResult list) \<times> 's" where
  "extract_batch_loop self i [] results s = (Inr results, s)"
| "extract_batch_loop self i (item # rest) results s =
     (let t = item_title i item;
          d = item_description item
      in case extract self d s of
           (Inl e, s') \<Rightarrow> (Inl e, s')
         | (Inr result, s') \<Rightarrow>
             extract_batch_loop self (i + 1) rest (results @ [with_item result t d]) s')"

definition extract_batch ::
  "'s NetflixExtractor \<Rightarrow> (string \<rightharpoonup> string) list \<Rightarrow> 's \<Rightarrow> (exn + BatchResult list) \<times> 's" where
  "extract_batch self descriptions s = extract_batch_loop self 0 descriptions [] s"

section \<open>The evaluation scorer\<close>

text \<open>
  Python floats are read as the real numbers they stand for, so rounding is left out. The
  division \<^verbatim>\<open>a / b\<close> raises \<^verbatim>\<open>ZeroDivisionError\<close> when \<open>b\<close> is zero; reading the
  attributes of the metadata of a result that has none raises \<^verbatim>\<open>AttributeError\<close>.
\<close>

definition truediv :: "real \<Rightarrow> real \<Rightarrow> exn + real" where
  "truediv a b = (if b = 0 then Inl ZeroDivisionError else Inr (a / b))"

definition exn_bind :: "exn + 'a \<Rightarrow> ('a \<Rightarrow> exn + 'b) \<Rightarrow> exn + 'b" where
  "exn_bind r f = (case r of Inl e \<Rightarrow> Inl e | Inr x \<Rightarrow> f x)"

definition schema_compliance_rate :: "BatchResult list \<Rightarrow> exn + real" where
  "schema_compliance_rate results =
     (if results = [] then Inr 0
      else let first_try_success = length (filter (\<lambda>r. success r \<and> retries r = 0) results)
           in exn_bind (truediv (real first_try_success) (real (length results)))
                (\<lambda>q. Inr (q * 100)))"

definition overall_success_rate :: "BatchResult list \<Rightarrow> exn + real" where
  "overall_success_rate results =
     (if results = [] then Inr 0
      else let successes = length (filter (\<lambda>r. success r) results)
           in exn_bind (truediv (real successes) (real (length results)))
                (\<lambda>q. Inr (q * 100)))"

definition retry_rate :: "BatchResult list \<Rightarrow> exn + real" where
  "retry_rate results =
     (if results = [] then Inr 0
      else let retried = length (filter (\<lambda>r. success r \<and> retries r > 0) results)
           in exn_bind (truediv (real retried) (real (length results)))
                (\<lambda>q. Inr (q * 100)))"

text \<open>The labelled dataset: the columns \<^verbatim>\<open>Title\<close> and \<^verbatim>\<open>Type\<close> of the data frame, one
  record for each row, in the order of the rows.\<close>

record DatasetRow =
  Title :: string
  Type :: string

record GenreDetail =
  gd_title :: string
  gd_extracted :: "string list"
  gd_actual :: "string list"
  gd_match :: bool

record GenreReport =
  accuracy :: real
  matches :: nat
  total :: nat
  details :: "GenreDetail list"

text \<open>The loop of \<^verbatim>\<open>genre_accuracy\<close> over the results that are left, with the
  counters and the list of details.\<close>

fun genre_loop ::
  "BatchResult list \<Rightarrow> DatasetRow list \<Rightarrow> nat \<Rightarrow> nat \<Rightarrow> GenreDetail list
     \<Rightarrow> exn + nat \<times> nat \<times> GenreDetail list" where
  "genre_loop [] df n_matches n_total ds = Inr (n_matches, n_total, ds)"
| "genre_loop (result # rest) df n_matches n_total ds =
     (if \<not> success result then genre_loop rest df n_matches n_total ds
      else case metadata result of
             None \<Rightarrow> Inl (AttributeError ''genres'')
           | Some md \<Rightarrow>
               (let extracted_genres = map lower (genres md)
                in case filter (\<lambda>r. Title r = title result) df of
                     [] \<Rightarrow> genre_loop rest df n_matches n_total ds
                   | row # _ \<Rightarrow>
                       (let actual_type = strip (lower (Type row));
                            actual_genres = map (\<lambda>g. lower (strip g)) (split_on CHR '','' actual_type);
                            overlap = set extracted_genres \<inter> set actual_genres;
                            has_match = (card overlap > 0)
                        in genre_loop rest df
                             (if has_match then n_matches + 1 else n_matches)
                             (n_total + 1)
                             (ds @ [\<lparr>gd_title = title result, gd_extracted = extracted_genres,
                                     gd_actual = actual_genres, gd_match = has_match\<rparr>]))))"

definition genre_accuracy :: "BatchResult list \<Rightarrow> DatasetRow list \<Rightarrow> exn + GenreReport" where
  "genre_accuracy results df =
     exn_bind (genre_loop results df 0 0 [])
       (\<lambda>(n_matches, n_total, ds).
          exn_bind (if n_total > 0
                    then exn_bind (truediv (real n_matches) (real n_total)) (\<lambda>q. Inr (q * 100))
                    else Inr 0)
            (\<lambda>acc. Inr \<lparr>accuracy = acc, matches = n_matches, total = n_total, details = ds\<rparr>))"

record Annotation =
  a_title :: string
  a_description :: string
  expected :: ContentMetadata

record FieldScores =
  fs_genres :: "real list"
  fs_themes :: "real list"
  fs_mood :: "real list"
  fs_target_audience :: "real list"
  fs_content_warnings :: "real list"

record ItemScores =
  sc_genres :: real
  sc_themes :: real
  sc_mood :: real
  sc_target_audience :: real
  sc_content_warnings :: real

record ComparisonDetail =
  cd_title :: string
  cd_extracted :: ContentMetadata
  cd_expected :: ContentMetadata
  cd_scores :: ItemScores

record AverageScores =
  avg_genres :: real
  avg_themes :: real
  avg_mood :: real
  avg_target_audience :: real
  avg_content_warnings :: real
  overall :: real

record ManualReport =
  average_scores :: AverageScores
  comparison_details :: "ComparisonDetail list"

text \<open>The block that \<^verbatim>\<open>manual_accuracy\<close> runs for the genres, the themes and the
  content warnings: the overlap of the two lower-cased sets.\<close>

definition overlap_score :: "string list \<Rightarrow> string list \<Rightarrow> exn + real" where
  "overlap_score extracted_items expected_items =
     (let ext_set = set (map lower extracted_items);
          exp_set = set (map lower expected_items)
      in if ext_set \<noteq> {} \<or> exp_set \<noteq> {}
         then truediv (real (card (ext_set \<inter> exp_set))) (real (card (ext_set \<union> exp_set)))
         else Inr 1)"

definition equal_score :: "string \<Rightarrow> string \<Rightarrow> real" where
  "equal_score extracted_text expected_text =
     (if lower extracted_text = lower expected_text then 1 else 0)"

text \<open>The loop of \<^verbatim>\<open>manual_accuracy\<close> over the annotations that are left.\<close>

fun manual_loop ::
  "BatchResult list \<Rightarrow> Annotation list \<Rightarrow> FieldScores \<Rightarrow> ComparisonDetail list
     \<Rightarrow> exn + FieldScores \<times> ComparisonDetail list" where
  "manual_loop results [] field_scores cds = Inr (field_scores, cds)"
| "manual_loop results (annotation # rest) field_scores cds =
     (case find (\<lambda>r. title r = a_title annotation) results of
        None \<Rightarrow> manual_loop results rest field_scores cds
      | Some result \<Rightarrow>
          (if \<not> success result then manual_loop results rest field_scores cds
           else case metadata result of
                  None \<Rightarrow> Inl (AttributeError ''genres'')
                | Some extracted \<Rightarrow>
                    exn_bind (overlap_score (genres extracted) (genres (expected annotation)))
                      (\<lambda>genre_score.
                    exn_bind (overlap_score (themes extracted) (themes (expected annotation)))
                      (\<lambda>theme_score.
                    let mood_score = equal_score (mood extracted) (mood (expected annotation));
                        audience_score = equal_score (target_audience extracted)
                                           (target_audience (expected annotation))
                    in
                    exn_bind (overlap_score (content_warnings extracted)
                                (content_warnings (expected annotation)))
                      (\<lambda>warning_score.
                    manual_loop results rest
                      \<lparr>fs_genres = fs_genres field_scores @ [genre_score],
                       fs_themes = fs_themes field_scores @ [theme_score],
                       fs_mood = fs_mood field_scores @ [mood_score],
                       fs_target_audience = fs_target_audience field_scores @ [audience_score],
                       fs_content_warnings = fs_content_warnings field_scores @ [warning_score]\<rparr>
                      (cds @ [\<lparr>cd_title = a_title annotation, cd_extracted = extracted,
                               cd_expected = expected annotation,
                               cd_scores = \<lparr>sc_genres = genre_score, sc_themes = theme_score,
                                            sc_mood = mood_score,
                                            sc_target_audience = audience_score,
                                            sc_content_warnings = warning_score\<rparr>\<rparr>]))))))"

text \<open>\<^verbatim>\<open>sum(scores) / len(scores) * 100 if scores else 0.0\<close>.\<close>

definition average_score :: "real list \<Rightarrow> exn + real" where
  "average_score scores =
     (if scores \<noteq> []
      then exn_bind (truediv (sum_list scores) (real (length scores))) (\<lambda>q. Inr (q * 100))
      else Inr 0)"

definition manual_accuracy :: "BatchResult list \<Rightarrow> Annotation list \<Rightarrow> exn + ManualReport" where
  "manual_accuracy results annotations =
     exn_bind (manual_loop results annotations
                 \<lparr>fs_genres = [], fs_themes = [], fs_mood = [], fs_target_audience = [],
                  fs_content_warnings = []\<rparr> [])
       (\<lambda>(field_scores, cds).
          exn_bind (average_score (fs_genres field_scores)) (\<lambda>g.
          exn_bind (average_score (fs_themes field_scores)) (\<lambda>t.
          exn_bind (average_score (fs_mood field_scores)) (\<lambda>m.
          exn_bind (average_score (fs_target_audience field_scores)) (\<lambda>a.
          exn_bind (average_score (fs_content_warnings field_scores)) (\<lambda>w.
          exn_bind (truediv (g + t + m + a + w) 5) (\<lambda>ov.
          Inr \<lparr>average_scores =
                 \<lparr>avg_genres = g, avg_themes = t, avg_mood = m, avg_target_audience = a,
                  avg_content_warnings = w, overall = ov\<rparr>,
               comparison_details = cds\<rparr>)))))))"

section \<open>Notions used by the properties\<close>

text \<open>The shapes that the schema asks of a value: a str, and a list of str.\<close>

fun is_str :: "json \<Rightarrow> bool" where
  "is_str (JString _) = True"
| "is_str _ = False"

fun is_list_str :: "json \<Rightarrow> bool" where
  "is_list_str (JArray xs) = list_all is_str xs"
| "is_list_str _ = False"

definition well_shaped :: "string \<Rightarrow> json \<Rightarrow> bool" where
  "well_shaped f v = (if f = ''genres'' \<or> f = ''themes'' then is_list_str v else is_str v)"

text \<open>All the lines that the validator collects for a mapping.\<close>

definition field_errors :: "(string \<times> json) list \<Rightarrow> line_error list" where
  "field_errors kwargs =
     errors_of (required_field ''genres'' validate_list_str kwargs) @
     errors_of (required_field ''themes'' validate_list_str kwargs) @
     errors_of (required_field ''mood'' validate_str kwargs) @
     errors_of (required_field ''target_audience'' validate_str kwargs) @
     errors_of (default_field ''content_warnings'' validate_list_str [] kwargs)"

text \<open>
  A run of three backticks somewhere in a text; and the ends of a payload as every JSON
  rendering without padding has them: it is not empty, its first character is no
  whitespace, no backtick and no \<open>j\<close> (a rendering starts with a brace, a bracket, a quote,
  a minus sign, a digit or one of the letters t, f, n, N, I), and its last character is no
  whitespace and no backtick.
\<close>

fun has_fence :: "string \<Rightarrow> bool" where
  "has_fence [] = False"
| "has_fence (c # cs) = (prefix ''```'' (c # cs) \<or> has_fence cs)"

definition bare_payload :: "string \<Rightarrow> bool" where
  "bare_payload t =
     (t \<noteq> [] \<and> \<not> isspace (hd t) \<and> hd t \<noteq> CHR 0x60 \<and> hd t \<noteq> CHR ''j''
      \<and> \<not> isspace (last t) \<and> last t \<noteq> CHR 0x60)"

text \<open>
  The same extractor with a service that counts its calls: the state of the service is
  paired with the number of calls made so far.
\<close>

definition counting :: "'s NetflixExtractor \<Rightarrow> ('s \<times> nat) NetflixExtractor" where
  "counting self =
     \<lparr>call_api = (\<lambda>(s, n) prompt. case call_api self s prompt of (r, s') \<Rightarrow> (r, (s', Suc n))),
      max_retries = max_retries self, json_loads = json_loads self,
      schema_json = schema_json self, validation_error_str = validation_error_str self\<rparr>"

text \<open>
  A response whose failure the \<^verbatim>\<open>except\<close> clause of \<^verbatim>\<open>extract\<close> contains: the call
  raised a \<^verbatim>\<open>ValueError\<close> (or one of its subclasses), or it returned a text whose cleaned
  form \<^verbatim>\<open>json.loads\<close> reads as a mapping or rejects with a \<^verbatim>\<open>ValueError\<close>.
\<close>

definition contained :: "'s NetflixExtractor \<Rightarrow> exn + string \<Rightarrow> bool" where
  "contained self r =
     (case r of
        Inl e \<Rightarrow> caught e
      | Inr raw \<Rightarrow>
          (case json_loads self (clean_json_response raw) of
             Inl e \<Rightarrow> caught e
           | Inr (JObject _) \<Rightarrow> True
           | Inr _ \<Rightarrow> False))"


text \<open>The state in which a batch over the given items leaves the service: each item's
  \<^verbatim>\<open>extract\<close> starts in the state that the item before it left.\<close>

fun service_after :: "'s NetflixExtractor \<Rightarrow> (string \<rightharpoonup> string) list \<Rightarrow> 's \<Rightarrow> 's" where
  "service_after self [] s = s"
| "service_after self (item # rest) s =
     service_after self rest (snd (extract self (item_description item) s))"

text \<open>Results as the batch runner builds them: a successful result carries its record.\<close>

definition well_formed :: "BatchResult list \<Rightarrow> bool" where
  "well_formed results = list_all (\<lambda>r. \<not> success r \<or> metadata r \<noteq> None) results"

text \<open>
  The words of the scoring rules: the set of the lower-cased items of a list, the Jaccard
  similarity of two sets (1 when both are empty), and the mean of a list of scores as a
  percentage (0 for no score).
\<close>

definition case_folded :: "string list \<Rightarrow> string set" where
  "case_folded xs = set (map lower xs)"

definition jaccard :: "string set \<Rightarrow> string set \<Rightarrow> real" where
  "jaccard A B = (if A = {} \<and> B = {} then 1 else real (card (A \<inter> B)) / real (card (A \<union> B)))"

definition mean_percent :: "real list \<Rightarrow> real" where
  "mean_percent xs = (if xs = [] then 0 else sum_list xs / real (length xs) * 100)"

text \<open>
  The annotations that are scored, each paired with the record it is compared with: the
  first result with the title of the annotation is looked up, and the annotation counts
  when that result is successful.
\<close>

definition comparable_annotations ::
  "BatchResult list \<Rightarrow> Annotation list \<Rightarrow> (ContentMetadata \<times> ContentMetadata) list" where
  "comparable_annotations results annotations =
     List.map_filter
       (\<lambda>a. case find (\<lambda>r. title r = a_title a) results of
              None \<Rightarrow> None
            | Some r \<Rightarrow> if success r then map_option (\<lambda>md. (md, expected a)) (metadata r) else None)
       annotations"

text \<open>
  The successful results with a row of their title in the dataset, each paired with the
  first such row; the genres of the label of a row (the lower-cased label is split at the
  commas and each piece is stripped of surrounding whitespace); and the match of a pair.
\<close>

definition comparable_rows :: "BatchResult list \<Rightarrow> DatasetRow list \<Rightarrow> (ContentMetadata \<times> DatasetRow) list" where
  "comparable_rows results df =
     List.map_filter
       (\<lambda>r. if success r
            then (case metadata r of
                    None \<Rightarrow> None
                  | Some md \<Rightarrow> map_option (Pair md) (find (\<lambda>row. Title row = title r) df))
            else None)
       results"

definition label_genres :: "DatasetRow \<Rightarrow> string set" where
  "label_genres row = set (map (\<lambda>g. lower (strip g)) (split_on CHR '','' (strip (lower (Type row)))))"

definition genres_match :: "ContentMetadata \<times> DatasetRow \<Rightarrow> bool" where
  "genres_match p = (set (map lower (genres (fst p))) \<inter> label_genres (snd p) \<noteq> {})"

section \<open>Sample collaborators and data\<close>

text \<open>
  The mocks of the test suite: \<^verbatim>\<open>MagicMock(return_value=r)\<close> answers every call with
  \<open>r\<close>; \<^verbatim>\<open>MagicMock(side_effect=[...])\<close> answers the calls with the items of the list in
  turn (an item that is an exception is raised) and raises \<^verbatim>\<open>StopIteration\<close> when the
  list is used up. Its state is the list of the items that are left.
\<close>

definition mock_return_value :: "string \<Rightarrow> unit \<Rightarrow> string \<Rightarrow> (exn + string) \<times> unit" where
  "mock_return_value r s prompt = (Inr r, ())"

fun mock_side_effect :: "(exn + string) list \<Rightarrow> string \<Rightarrow> (exn + string) \<times> (exn + string) list" where
  "mock_side_effect [] prompt = (Inl (OtherError ''StopIteration''), [])"
| "mock_side_effect (r # rest) prompt = (r, rest)"

text \<open>
  What \<^verbatim>\<open>json.loads\<close> returns on the texts of the examples below. Texts outside this
  sample are not examples of anything here; the table answers them with an error of its
  own.
\<close>

definition json_loads_sample :: "string \<Rightarrow> exn + json" where
  \<open>json_loads_sample text_in =
     (if text_in = ''{"genres": ["Comedy"], "themes": ["love"], "mood": "lighthearted", "target_audience": "teens", "content_warnings": []}''
      then Inr (JObject [(''genres'', JArray [JString ''Comedy'']),
                         (''themes'', JArray [JString ''love'']),
                         (''mood'', JString ''lighthearted''),
                         (''target_audience'', JString ''teens''),
                         (''content_warnings'', JArray [])])
      else if text_in = ''{"mood": "```"}'' then Inr (JObject [(''mood'', JString ''```'')])
      else if text_in = ''{"mood": ""}'' then Inr (JObject [(''mood'', JString [])])
      else if text_in = ''[]'' then Inr (JArray [])
      else if text_in = ''{"genres": ["Drama"''
      then Inl (JSONDecodeError ''Expecting ',' delimiter: line 1 column 20 (char 19)'')
      else if text_in = ''Not valid JSON'' \<or> text_in = ''Not JSON''
      then Inl (JSONDecodeError ''Expecting value: line 1 column 1 (char 0)'')
      else Inl (OtherError ''not in the sample''))\<close>

text \<open>An extractor as \<^verbatim>\<open>__init__\<close> leaves it (\<^verbatim>\<open>max_retries\<close> is 2), with a given
  \<^verbatim>\<open>_call_api\<close>, the sample of \<^verbatim>\<open>json.loads\<close>, and short stand-ins for the two texts
  that pydantic renders.\<close>

definition sample_extractor ::
  "('s \<Rightarrow> string \<Rightarrow> (exn + string) \<times> 's) \<Rightarrow> 's NetflixExtractor" where
  \<open>sample_extractor api =
     \<lparr>call_api = api, max_retries = 2, json_loads = json_loads_sample,
      schema_json = ''{"title": "ContentMetadata", "type": "object"}'',
      validation_error_str = (\<lambda>errs. str_nat (length errs) @ '' validation errors for ContentMetadata'')\<rparr>\<close>

text \<open>A successful and a failed result with a given title, for the examples.\<close>

definition succeeded :: "string \<Rightarrow> ContentMetadata \<Rightarrow> BatchResult" where
  "succeeded t md =
     \<lparr>metadata = Some md, raw_response = Some ''{}'', retries = 0, success = True, error = None,
      title = t, description = []\<rparr>"

definition failed :: "string \<Rightarrow> BatchResult" where
  "failed t =
     \<lparr>metadata = None, raw_response = Some ''Not JSON'', retries = 2, success = False,
      error = Some ''Invalid JSON response'', title = t, description = []\<rparr>"

chapter \<open>Properties\<close>

section \<open>The schema validator\<close>

lemma item_errors_strings [simp]: "item_errors f i (map JString xs) = []"
  by (induction xs arbitrary: i) auto

lemma item_strings_strings [simp]: "item_strings (map JString xs) = xs"
  by (induction xs) auto

lemma validate_list_str_strings [simp]: "validate_list_str f (JArray (map JString xs)) = Inr xs"
  by (simp add: validate_list_str_def)

lemma validate_str_string [simp]: "validate_str f (JString s) = Inr s"
  by (simp add: validate_str_def)

text \<open>
  Claim C3, amended. For every mapping whose \<open>genres\<close> and \<open>themes\<close> are lists of strings,
  whose \<open>mood\<close> and \<open>target_audience\<close> are strings, and whose \<open>content_warnings\<close> is either
  absent or a list of strings, the validator succeeds, the fields of the record are the
  values of the mapping, and \<open>content_warnings\<close> is the empty list when the key is absent.
\<close>

theorem validate_accepts:
  assumes "map_of kwargs ''genres'' = Some (JArray (map JString gs))"
    and "map_of kwargs ''themes'' = Some (JArray (map JString ts))"
    and "map_of kwargs ''mood'' = Some (JString m)"
    and "map_of kwargs ''target_audience'' = Some (JString a)"
    and "map_of kwargs ''content_warnings'' = None
         \<or> map_of kwargs ''content_warnings'' = Some (JArray (map JString ws))"
  shows "validate (JObject kwargs) =
           Inr \<lparr>genres = gs, themes = ts, mood = m, target_audience = a,
                content_warnings =
                  (case map_of kwargs ''content_warnings'' of None \<Rightarrow> [] | Some _ \<Rightarrow> ws)\<rparr>"
  using assms
  by (auto simp: validate_def ContentMetadata_new_def required_field_def default_field_def)

text \<open>The theorem at the mapping of the test \<^verbatim>\<open>test_empty_warnings_default\<close>, and at the
  same mapping with a list of warnings.\<close>

theorem validate_accepts_witness:
  "validate (JObject [(''genres'', JArray [JString ''Comedy'']), (''themes'', JArray [JString ''love'']),
                      (''mood'', JString ''lighthearted''), (''target_audience'', JString ''teens'')])
     = Inr \<lparr>genres = [''Comedy''], themes = [''love''], mood = ''lighthearted'',
            target_audience = ''teens'', content_warnings = []\<rparr>
   \<and> validate (JObject [(''genres'', JArray [JString ''Comedy'']), (''themes'', JArray [JString ''love'']),
                        (''mood'', JString ''lighthearted''), (''target_audience'', JString ''teens''),
                        (''content_warnings'', JArray [JString ''language''])])
     = Inr \<lparr>genres = [''Comedy''], themes = [''love''], mood = ''lighthearted'',
            target_audience = ''teens'', content_warnings = [''language'']\<rparr>"
  using validate_accepts [of "[(''genres'', JArray [JString ''Comedy'']), (''themes'', JArray [JString ''love'']),
                               (''mood'', JString ''lighthearted''), (''target_audience'', JString ''teens'')]"
                             "[''Comedy'']" "[''love'']" "''lighthearted''" "''teens''" "[]"]
        validate_accepts [of "[(''genres'', JArray [JString ''Comedy'']), (''themes'', JArray [JString ''love'']),
                               (''mood'', JString ''lighthearted''), (''target_audience'', JString ''teens''),
                               (''content_warnings'', JArray [JString ''language''])]"
                             "[''Comedy'']" "[''love'']" "''lighthearted''" "''teens''" "[''language'']"]
  by simp

text \<open>
  Claim C3 as it is stated fails: this mapping has the four required fields with the
  right types, and the validator rejects it, because its \<open>content_warnings\<close> is
  \<^verbatim>\<open>null\<close> and not a list.
\<close>

theorem validate_accepts_counterexample:
  "map_of [(''genres'', JArray [JString ''Drama'']), (''themes'', JArray [JString ''love'']),
           (''mood'', JString ''dark''), (''target_audience'', JString ''adults''),
           (''content_warnings'', JNull)] ''genres'' = Some (JArray (map JString [''Drama'']))
   \<and> map_of [(''genres'', JArray [JString ''Drama'']), (''themes'', JArray [JString ''love'']),
             (''mood'', JString ''dark''), (''target_audience'', JString ''adults''),
             (''content_warnings'', JNull)] ''themes'' = Some (JArray (map JString [''love'']))
   \<and> map_of [(''genres'', JArray [JString ''Drama'']), (''themes'', JArray [JString ''love'']),
             (''mood'', JString ''dark''), (''target_audience'', JString ''adults''),
             (''content_warnings'', JNull)] ''mood'' = Some (JString ''dark'')
   \<and> map_of [(''genres'', JArray [JString ''Drama'']), (''themes'', JArray [JString ''love'']),
             (''mood'', JString ''dark''), (''target_audience'', JString ''adults''),
             (''content_warnings'', JNull)] ''target_audience'' = Some (JString ''adults'')
   \<and> validate (JObject [(''genres'', JArray [JString ''Drama'']), (''themes'', JArray [JString ''love'']),
                        (''mood'', JString ''dark''), (''target_audience'', JString ''adults''),
                        (''content_warnings'', JNull)])
       = Inl (ValidationError [LineError ''content_warnings'' None ListType])"
  by (simp add: validate_def ContentMetadata_new_def required_field_def default_field_def
        validate_list_str_def validate_str_def errors_of_def)

lemma item_errors_loc: "e \<in> set (item_errors f i xs) \<Longrightarrow> loc_field e = f"
  by (induction f i xs rule: item_errors.induct) auto

lemma item_errors_empty_iff: "item_errors f i xs = [] \<longleftrightarrow> list_all is_str xs"
  by (induction f i xs rule: item_errors.induct) auto

lemma validate_list_str_bad:
  "\<not> is_list_str v \<Longrightarrow>
     \<exists>es. validate_list_str f v = Inl es \<and> es \<noteq> [] \<and> (\<forall>e \<in> set es. loc_field e = f)"
  by (cases v) (auto simp: validate_list_str_def item_errors_empty_iff item_errors_loc)

lemma validate_str_bad:
  "\<not> is_str v \<Longrightarrow>
     \<exists>es. validate_str f v = Inl es \<and> es \<noteq> [] \<and> (\<forall>e \<in> set es. loc_field e = f)"
  by (cases v) (auto simp: validate_str_def)

lemma required_list_bad:
  assumes "map_of kwargs f = None \<or> (\<exists>v. map_of kwargs f = Some v \<and> \<not> is_list_str v)"
  shows "\<exists>es. required_field f validate_list_str kwargs = Inl es \<and> es \<noteq> []
            \<and> (\<forall>e \<in> set es. loc_field e = f)
            \<and> (map_of kwargs f = None \<longrightarrow> es = [LineError f None Missing])"
  using assms validate_list_str_bad [of _ f]
  by (auto simp: required_field_def)

lemma required_str_bad:
  assumes "map_of kwargs f = None \<or> (\<exists>v. map_of kwargs f = Some v \<and> \<not> is_str v)"
  shows "\<exists>es. required_field f validate_str kwargs = Inl es \<and> es \<noteq> []
            \<and> (\<forall>e \<in> set es. loc_field e = f)
            \<and> (map_of kwargs f = None \<longrightarrow> es = [LineError f None Missing])"
  using assms validate_str_bad [of _ f]
  by (auto simp: required_field_def)

lemma all_fields_or_errors:
  assumes "errors_of g @ errors_of t @ errors_of m @ errors_of a @ errors_of w \<noteq> []"
  shows "(case (g, t, m, a, w) of
            (Inr gs, Inr ts, Inr mv, Inr av, Inr ws) \<Rightarrow> Inr (X gs ts mv av ws)
          | _ \<Rightarrow> Inl (ValidationError E)) = Inl (ValidationError E)"
  using assms by (auto simp: errors_of_def split: sum.splits)

lemma validate_collects_errors:
  assumes ne: "field_errors kwargs \<noteq> []"
  shows "validate (JObject kwargs) = Inl (ValidationError (field_errors kwargs))"
  unfolding validate_def ContentMetadata_new_def Let_def json.case field_errors_def
  by (rule all_fields_or_errors [OF ne [unfolded field_errors_def]])

lemma field_errors_required:
  assumes f: "f = ''genres'' \<or> f = ''themes'' \<or> f = ''mood'' \<or> f = ''target_audience''"
    and bad: "map_of kwargs f = None \<or> (\<exists>v. map_of kwargs f = Some v \<and> \<not> well_shaped f v)"
  shows "\<exists>es. es \<noteq> [] \<and> set es \<subseteq> set (field_errors kwargs)
            \<and> (\<forall>e \<in> set es. loc_field e = f)
            \<and> (map_of kwargs f = None \<longrightarrow> es = [LineError f None Missing])"
proof -
  consider "f = ''genres''" | "f = ''themes''" | "f = ''mood''" | "f = ''target_audience''"
    using f by blast
  then show ?thesis
  proof cases
    case 1
    with bad have "map_of kwargs f = None \<or> (\<exists>v. map_of kwargs f = Some v \<and> \<not> is_list_str v)"
      by (simp add: well_shaped_def)
    from required_list_bad [OF this] 1 show ?thesis
      by (auto simp: field_errors_def errors_of_def)
  next
    case 2
    with bad have "map_of kwargs f = None \<or> (\<exists>v. map_of kwargs f = Some v \<and> \<not> is_list_str v)"
      by (simp add: well_shaped_def)
    from required_list_bad [OF this] 2 show ?thesis
      by (auto simp: field_errors_def errors_of_def)
  next
    case 3
    with bad have "map_of kwargs f = None \<or> (\<exists>v. map_of kwargs f = Some v \<and> \<not> is_str v)"
      by (simp add: well_shaped_def)
    from required_str_bad [OF this] 3 show ?thesis
      by (auto simp: field_errors_def errors_of_def)
  next
    case 4
    with bad have "map_of kwargs f = None \<or> (\<exists>v. map_of kwargs f = Some v \<and> \<not> is_str v)"
      by (simp add: well_shaped_def)
    from required_str_bad [OF this] 4 show ?thesis
      by (auto simp: field_errors_def errors_of_def)
  qed
qed

text \<open>
  Claim C4. For every mapping in which one of the four required fields is missing, or has
  a value of the wrong shape (\<open>genres\<close> and \<open>themes\<close> ask for a list of strings, \<open>mood\<close> and
  \<open>target_audience\<close> for a string), the validator fails with a \<open>ValidationError\<close> and
  returns no record; a line of the error names that field, and for a missing field it is
  the line that reports the field as missing.
\<close>

theorem validate_rejects:
  assumes f: "f = ''genres'' \<or> f = ''themes'' \<or> f = ''mood'' \<or> f = ''target_audience''"
    and bad: "map_of kwargs f = None \<or> (\<exists>v. map_of kwargs f = Some v \<and> \<not> well_shaped f v)"
  shows "\<exists>errs. validate (JObject kwargs) = Inl (ValidationError errs)
            \<and> (\<exists>e \<in> set errs. loc_field e = f)
            \<and> (map_of kwargs f = None \<longrightarrow> LineError f None Missing \<in> set errs)"
proof -
  from field_errors_required [OF f bad]
  obtain es where es: "es \<noteq> [] \<and> set es \<subseteq> set (field_errors kwargs)
      \<and> (\<forall>e \<in> set es. loc_field e = f)
      \<and> (map_of kwargs f = None \<longrightarrow> es = [LineError f None Missing])" ..
  then obtain e where e: "e \<in> set es" by (cases es) auto
  from es e have in_E: "e \<in> set (field_errors kwargs)" and loc: "loc_field e = f" by auto
  then have "field_errors kwargs \<noteq> []" by auto
  then have "validate (JObject kwargs) = Inl (ValidationError (field_errors kwargs))"
    by (rule validate_collects_errors)
  moreover from in_E loc have "\<exists>e \<in> set (field_errors kwargs). loc_field e = f" ..
  moreover from es have "map_of kwargs f = None \<longrightarrow> LineError f None Missing \<in> set (field_errors kwargs)"
    by auto
  ultimately show ?thesis by (intro exI conjI)
qed

text \<open>The theorem at the mappings of the tests \<^verbatim>\<open>test_wrong_type_genres\<close> (a string
  where a list is asked for) and \<^verbatim>\<open>test_missing_required_field\<close>.\<close>

theorem validate_rejects_witness:
  "(\<exists>errs. validate (JObject [(''genres'', JString ''Drama''), (''themes'', JArray [JString ''love'']),
                               (''mood'', JString ''dark''), (''target_audience'', JString ''adults'')])
              = Inl (ValidationError errs)
            \<and> (\<exists>e \<in> set errs. loc_field e = ''genres''))
   \<and> (\<exists>errs. validate (JObject [(''genres'', JArray [JString ''Drama''])]) = Inl (ValidationError errs)
            \<and> LineError ''mood'' None Missing \<in> set errs)"
proof (intro conjI)
  show "\<exists>errs. validate (JObject [(''genres'', JString ''Drama''), (''themes'', JArray [JString ''love'']),
                                   (''mood'', JString ''dark''), (''target_audience'', JString ''adults'')])
                  = Inl (ValidationError errs)
               \<and> (\<exists>e \<in> set errs. loc_field e = ''genres'')"
    using validate_rejects [of "''genres''" "[(''genres'', JString ''Drama''), (''themes'', JArray [JString ''love'']),
                                               (''mood'', JString ''dark''), (''target_audience'', JString ''adults'')]"]
    by (simp add: well_shaped_def)
  show "\<exists>errs. validate (JObject [(''genres'', JArray [JString ''Drama''])]) = Inl (ValidationError errs)
               \<and> LineError ''mood'' None Missing \<in> set errs"
    using validate_rejects [of "''mood''" "[(''genres'', JArray [JString ''Drama''])]"]
    by auto
qed

section \<open>The response parser\<close>

text \<open>
  Claim C6. \<^verbatim>\<open>_parse_response\<close> has one \<^verbatim>\<open>except\<close> clause, for
  \<^verbatim>\<open>json.JSONDecodeError\<close>. Where \<^verbatim>\<open>json.loads\<close> reports a syntax error in the cleaned
  text, the parser fails with its \<open>ValueError\<close> (the parse error of the program), whose
  message holds the detail of the syntax error and the cleaned text: that is the claim.
  Where \<^verbatim>\<open>json.loads\<close> gives up with another exception before it reaches the syntax
  error, that exception leaves the parser as it is, with neither the detail nor the
  cleaned text. The decoder does so on a text that is nested deeper than the recursion
  limit of the interpreter (a \<^verbatim>\<open>RecursionError\<close>; 2000 opening brackets are no valid
  JSON and are such a text), and on an integer literal longer than the limit of the
  conversion to \<^verbatim>\<open>int\<close> (a plain \<^verbatim>\<open>ValueError\<close>). So the claim does not hold for
  every text that is no valid JSON. The lemmas trace the parser on both paths, for every
  \<^verbatim>\<open>json.loads\<close>.
\<close>

lemma parse_response_wraps:
  assumes "loads (clean_json_response response) = Inl (JSONDecodeError detail)"
  shows "parse_response loads response =
           Inl (ValueError (''Invalid JSON response: '' @ detail @ ''\<newline>Response was: ''
                            @ clean_json_response response))"
  using assms by (simp add: parse_response_def)

lemma parse_response_passes:
  assumes "loads (clean_json_response response) = Inl e"
    and "\<forall>detail. e \<noteq> JSONDecodeError detail"
  shows "parse_response loads response = Inl e"
  using assms by (cases e) (simp_all add: parse_response_def)

lemma sub_marker_no_backtick:
  assumes "m \<noteq> []" and "hd m = CHR 0x60" and "CHR 0x60 \<notin> set t"
  shows "sub_marker m t = t"
  using assms(3)
proof (induction t)
  case Nil
  show ?case by simp
next
  case (Cons c t)
  from Cons.prems assms(1,2) have "\<not> prefix m (c # t)"
    by (cases m) auto
  with Cons show ?case by (simp add: sub_marker.simps(2))
qed

lemma strip_bare:
  assumes "t \<noteq> []" and "\<not> isspace (hd t)" and "\<not> isspace (last t)"
  shows "strip t = t"
proof -
  from assms(1,2) have 1: "dropWhile isspace t = t" by (cases t) auto
  from assms(1,3) have 2: "dropWhile isspace (rev t) = rev t"
    by (cases "rev t") (auto simp: last_rev [symmetric] simp del: last_rev)
  from 1 2 show ?thesis by (simp add: strip_def)
qed

lemma clean_brackets:
  assumes "0 < n"
  shows "clean_json_response (replicate n CHR ''['') = replicate n CHR ''[''"
proof -
  have nb: "CHR 0x60 \<notin> set (replicate n CHR ''['')" by auto
  from assms have ne: "replicate n CHR ''['' \<noteq> []" by simp
  from assms have "hd (replicate n CHR ''['') = CHR ''[''" "last (replicate n CHR ''['') = CHR ''[''"
    by (simp_all add: hd_replicate last_replicate)
  then have "\<not> isspace (hd (replicate n CHR ''[''))" "\<not> isspace (last (replicate n CHR ''[''))"
    by (simp_all add: isspace_def)
  from strip_bare [OF ne this] show ?thesis
    by (simp add: clean_json_response_def sub_marker_no_backtick [OF _ _ nb])
qed

text \<open>
  The text of 2000 opening brackets: the cleanup leaves it as it is, and whatever
  exception outside \<^verbatim>\<open>ValueError\<close> and its subclasses \<^verbatim>\<open>json.loads\<close> raises on it
  (CPython raises \<^verbatim>\<open>RecursionError\<close>) is what the parser raises. The result is no
  \<open>ValueError\<close>, so the \<^verbatim>\<open>except\<close> clause of \<^verbatim>\<open>extract\<close> does not catch it either.
\<close>

lemma parse_response_deep_nesting:
  assumes "loads (replicate 2000 CHR ''['') = Inl (OtherError msg)"
  shows "parse_response loads (replicate 2000 CHR ''['') = Inl (OtherError msg)"
    and "\<not> caught (OtherError msg)"
proof -
  have c: "clean_json_response (replicate 2000 CHR ''['') = replicate 2000 CHR ''[''"
    by (rule clean_brackets) simp
  show "parse_response loads (replicate 2000 CHR ''['') = Inl (OtherError msg)"
    by (rule parse_response_passes) (simp_all add: c assms)
  show "\<not> caught (OtherError msg)" by simp
qed

section \<open>The response parser: fenced payloads\<close>

lemma backtick_not_space [simp]: "\<not> isspace (CHR 0x60)"
  by (simp add: isspace_def)

lemma sub_marker_skip_space:
  assumes "list_all isspace w" and "m \<noteq> []" and "\<not> isspace (hd m)"
  shows "sub_marker m (w @ rest) = w @ sub_marker m rest"
  using assms
proof (induction w)
  case Nil
  then show ?case by simp
next
  case (Cons c w)
  from Cons.prems have "\<not> prefix m (c # w @ rest)"
    by (cases m) auto
  with Cons show ?case by (simp add: sub_marker.simps(2))
qed

lemma no_fence_at_head:
  assumes "\<not> has_fence t" and "t \<noteq> []" and "last t \<noteq> CHR 0x60"
  shows "\<not> prefix ''```'' (t @ rest)"
proof (cases t)
  case Nil
  with assms show ?thesis by simp
next
  case (Cons a t1)
  note t = this
  show ?thesis
  proof (cases t1)
    case Nil
    with t assms show ?thesis by auto
  next
    case (Cons b t2)
    note t1 = this
    show ?thesis
    proof (cases t2)
      case Nil
      with t t1 assms show ?thesis by auto
    next
      case (Cons c t3)
      with t t1 assms show ?thesis by auto
    qed
  qed
qed

lemma sub_marker_skip_payload:
  assumes "\<not> has_fence t" and "t = [] \<or> last t \<noteq> CHR 0x60" and "prefix ''```'' m"
  shows "sub_marker m (t @ rest) = t @ sub_marker m rest"
  using assms
proof (induction t)
  case Nil
  then show ?case by simp
next
  case (Cons c cs)
  from Cons.prems have "\<not> prefix ''```'' ((c # cs) @ rest)"
    by (intro no_fence_at_head) auto
  with \<open>prefix ''```'' m\<close> have np: "\<not> prefix m (c # cs @ rest)"
    using prefix_order.trans by fastforce
  from Cons.prems have "\<not> has_fence cs" and "cs = [] \<or> last cs \<noteq> CHR 0x60"
    by (auto split: if_splits)
  with Cons.IH Cons.prems(3) have "sub_marker m (cs @ rest) = cs @ sub_marker m rest"
    by simp
  with np show ?case by (simp add: sub_marker.simps(2))
qed

lemma dropWhile_space_prefix:
  assumes "list_all isspace w" and "rest = [] \<or> \<not> isspace (hd rest)"
  shows "dropWhile isspace (w @ rest) = rest"
proof -
  from assms(2) have "dropWhile isspace rest = rest" by (cases rest) auto
  with assms(1) show ?thesis by (induction w) auto
qed

lemma sub_marker_at_marker:
  assumes "m \<noteq> []" and "list_all isspace w" and "rest = [] \<or> \<not> isspace (hd rest)"
  shows "sub_marker m (m @ w @ rest) = sub_marker m rest"
proof -
  from assms(1) obtain c m' where m: "m = c # m'" by (cases m) auto
  have "sub_marker m (m @ w @ rest) = sub_marker m (dropWhile isspace (drop (length m) (m @ w @ rest)))"
    unfolding m by (simp add: sub_marker.simps(2))
  also have "\<dots> = sub_marker m rest"
    using assms(2,3) by (simp add: dropWhile_space_prefix)
  finally show ?thesis .
qed

lemma tagged_keeps_bare_fence:
  assumes "X = [] \<or> (hd X \<noteq> CHR 0x60 \<and> hd X \<noteq> CHR ''j'')"
  shows "sub_marker ''```json'' (''```'' @ X) = ''```'' @ sub_marker ''```json'' X"
  using assms by (cases X) (auto simp: sub_marker.simps(2))

lemma strip_padded:
  assumes "list_all isspace w1" and "list_all isspace w3"
    and "t \<noteq> []" and "\<not> isspace (hd t)" and "\<not> isspace (last t)"
  shows "strip (w1 @ t @ w3) = t"
proof -
  from assms(3,4) have "dropWhile isspace (w1 @ t @ w3) = t @ w3"
    using assms(1) by (intro dropWhile_space_prefix) (auto simp: hd_append)
  moreover have "dropWhile isspace (rev w3 @ rev t) = rev t"
    using assms(2,3,5) by (intro dropWhile_space_prefix) (auto simp: hd_rev list_all_iff)
  ultimately show ?thesis by (simp add: strip_def)
qed

lemma clean_tagged:
  assumes w: "list_all isspace w1" "list_all isspace w2" "list_all isspace w3" "list_all isspace w4"
    and t: "bare_payload t" "\<not> has_fence t"
  shows "clean_json_response (w1 @ ''```json'' @ w2 @ t @ w3 @ ''```'' @ w4) = t"
proof -
  from t have t': "t \<noteq> []" "\<not> isspace (hd t)" "\<not> isspace (last t)" "last t \<noteq> CHR 0x60"
    by (auto simp: bare_payload_def)
  have w4: "w4 = [] \<or> (hd w4 \<noteq> CHR 0x60 \<and> hd w4 \<noteq> CHR ''j'')"
    using w(4) by (cases w4) (auto simp: isspace_def)
  have "sub_marker ''```json'' (w1 @ ''```json'' @ w2 @ t @ w3 @ ''```'' @ w4)
          = w1 @ sub_marker ''```json'' (''```json'' @ w2 @ (t @ w3 @ ''```'' @ w4))"
    using w(1) by (subst sub_marker_skip_space) auto
  also have "\<dots> = w1 @ sub_marker ''```json'' (t @ w3 @ ''```'' @ w4)"
    using w(2) t' by (subst sub_marker_at_marker) (auto simp: hd_append)
  also have "\<dots> = w1 @ t @ sub_marker ''```json'' (w3 @ ''```'' @ w4)"
    using t(2) t' by (subst sub_marker_skip_payload) auto
  also have "\<dots> = w1 @ t @ w3 @ sub_marker ''```json'' (''```'' @ w4)"
    using w(3) by (subst sub_marker_skip_space) auto
  also have "\<dots> = w1 @ t @ w3 @ ''```'' @ sub_marker ''```json'' w4"
    using w4 by (subst tagged_keeps_bare_fence) auto
  also have "\<dots> = w1 @ t @ w3 @ ''```'' @ w4"
    using w(4) sub_marker_skip_space [of w4 "''```json''" "[]"] by simp
  finally have pass1: "sub_marker ''```json'' (w1 @ ''```json'' @ w2 @ t @ w3 @ ''```'' @ w4)
          = w1 @ t @ w3 @ ''```'' @ w4" .
  have "sub_marker ''```'' (w1 @ t @ w3 @ ''```'' @ w4) = w1 @ sub_marker ''```'' (t @ w3 @ ''```'' @ w4)"
    using w(1) by (subst sub_marker_skip_space) auto
  also have "\<dots> = w1 @ t @ sub_marker ''```'' (w3 @ ''```'' @ w4)"
    using t(2) t' by (subst sub_marker_skip_payload) auto
  also have "\<dots> = w1 @ t @ w3 @ sub_marker ''```'' (''```'' @ w4 @ [])"
    using w(3) by (subst sub_marker_skip_space) auto
  also have "\<dots> = w1 @ t @ w3 @ sub_marker ''```'' []"
    using w(4) by (subst sub_marker_at_marker) auto
  finally have pass2: "sub_marker ''```'' (w1 @ t @ w3 @ ''```'' @ w4) = w1 @ t @ w3"
    by simp
  show ?thesis
    using pass1 pass2 strip_padded [OF w(1) w(3) t'(1,2,3)]
    by (simp add: clean_json_response_def)
qed

lemma clean_untagged:
  assumes w: "list_all isspace w1" "list_all isspace w2" "list_all isspace w3" "list_all isspace w4"
    and t: "bare_payload t" "\<not> has_fence t"
  shows "clean_json_response (w1 @ ''```'' @ w2 @ t @ w3 @ ''```'' @ w4) = t"
proof -
  from t have t': "t \<noteq> []" "\<not> isspace (hd t)" "\<not> isspace (last t)" "last t \<noteq> CHR 0x60"
      "hd t \<noteq> CHR 0x60" "hd t \<noteq> CHR ''j''"
    by (auto simp: bare_payload_def)
  have w4: "w4 = [] \<or> (hd w4 \<noteq> CHR 0x60 \<and> hd w4 \<noteq> CHR ''j'')"
    using w(4) by (cases w4) (auto simp: isspace_def)
  have w2: "hd (w2 @ t @ w3 @ ''```'' @ w4) \<noteq> CHR 0x60 \<and> hd (w2 @ t @ w3 @ ''```'' @ w4) \<noteq> CHR ''j''"
    using w(2) t' by (cases w2) (auto simp: isspace_def hd_append)
  have "sub_marker ''```json'' (w1 @ ''```'' @ w2 @ t @ w3 @ ''```'' @ w4)
          = w1 @ sub_marker ''```json'' (''```'' @ (w2 @ t @ w3 @ ''```'' @ w4))"
    using w(1) by (subst sub_marker_skip_space) auto
  also have "\<dots> = w1 @ ''```'' @ sub_marker ''```json'' (w2 @ t @ w3 @ ''```'' @ w4)"
    using w2 by (subst tagged_keeps_bare_fence) auto
  also have "\<dots> = w1 @ ''```'' @ w2 @ sub_marker ''```json'' (t @ w3 @ ''```'' @ w4)"
    using w(2) by (subst sub_marker_skip_space) auto
  also have "\<dots> = w1 @ ''```'' @ w2 @ t @ sub_marker ''```json'' (w3 @ ''```'' @ w4)"
    using t(2) t' by (subst sub_marker_skip_payload) auto
  also have "\<dots> = w1 @ ''```'' @ w2 @ t @ w3 @ sub_marker ''```json'' (''```'' @ w4)"
    using w(3) by (subst sub_marker_skip_space) auto
  also have "\<dots> = w1 @ ''```'' @ w2 @ t @ w3 @ ''```'' @ sub_marker ''```json'' w4"
    using w4 by (subst tagged_keeps_bare_fence) auto
  also have "\<dots> = w1 @ ''```'' @ w2 @ t @ w3 @ ''```'' @ w4"
    using w(4) sub_marker_skip_space [of w4 "''```json''" "[]"] by simp
  finally have pass1: "sub_marker ''```json'' (w1 @ ''```'' @ w2 @ t @ w3 @ ''```'' @ w4)
          = w1 @ ''```'' @ w2 @ t @ w3 @ ''```'' @ w4" .
  have "sub_marker ''```'' (w1 @ ''```'' @ w2 @ t @ w3 @ ''```'' @ w4)
          = w1 @ sub_marker ''```'' (''```'' @ w2 @ (t @ w3 @ ''```'' @ w4))"
    using w(1) by (subst sub_marker_skip_space) auto
  also have "\<dots> = w1 @ sub_marker ''```'' (t @ w3 @ ''```'' @ w4)"
    using w(2) t' by (subst sub_marker_at_marker) (auto simp: hd_append)
  also have "\<dots> = w1 @ t @ sub_marker ''```'' (w3 @ ''```'' @ w4)"
    using t(2) t' by (subst sub_marker_skip_payload) auto
  also have "\<dots> = w1 @ t @ w3 @ sub_marker ''```'' (''```'' @ w4 @ [])"
    using w(3) by (subst sub_marker_skip_space) auto
  also have "\<dots> = w1 @ t @ w3 @ sub_marker ''```'' []"
    using w(4) by (subst sub_marker_at_marker) auto
  finally have pass2: "sub_marker ''```'' (w1 @ ''```'' @ w2 @ t @ w3 @ ''```'' @ w4) = w1 @ t @ w3"
    by simp
  show ?thesis
    using pass1 pass2 strip_padded [OF w(1) w(3) t'(1,2,3)]
    by (simp add: clean_json_response_def)
qed

text \<open>
  Claim C5, amended. Let \<open>t\<close> be a JSON text that \<^verbatim>\<open>json.loads\<close> reads as \<open>V\<close>, with the
  ends of a rendering without padding and with no run of three backticks in it. Wrapped
  in fence markers, the opening one tagged \<open>json\<close> or not, with any whitespace before and
  behind each marker, it is cleaned to \<open>t\<close> again, and the parser returns \<open>V\<close>.
\<close>

theorem fenced_round_trip:
  assumes w: "list_all isspace w1" "list_all isspace w2" "list_all isspace w3" "list_all isspace w4"
    and tag: "tag = [] \<or> tag = ''json''"
    and t: "bare_payload t" "\<not> has_fence t"
    and V: "loads t = Inr V"
  shows "clean_json_response (w1 @ ''```'' @ tag @ w2 @ t @ w3 @ ''```'' @ w4) = t
         \<and> parse_response loads (w1 @ ''```'' @ tag @ w2 @ t @ w3 @ ''```'' @ w4) = Inr V"
proof -
  have "clean_json_response (w1 @ ''```'' @ tag @ w2 @ t @ w3 @ ''```'' @ w4) = t"
    using tag clean_tagged [OF w t] clean_untagged [OF w t] by auto
  with V show ?thesis by (simp add: parse_response_def)
qed

text \<open>The theorem at the wrapping of the test \<^verbatim>\<open>test_json_with_markdown_backticks\<close>
  (tagged, a newline inside each marker) and at an untagged wrapping with blanks around.\<close>

theorem fenced_round_trip_witness:
  \<open>parse_response json_loads_sample
      ''```json\<newline>{"genres": ["Comedy"], "themes": ["love"], "mood": "lighthearted", "target_audience": "teens", "content_warnings": []}\<newline>```''
    = Inr (JObject [(''genres'', JArray [JString ''Comedy'']),
                    (''themes'', JArray [JString ''love'']),
                    (''mood'', JString ''lighthearted''),
                    (''target_audience'', JString ''teens''),
                    (''content_warnings'', JArray [])])
   \<and> parse_response json_loads_sample ''  ``` {"mood": ""}\<newline>```  \<newline>''
    = Inr (JObject [(''mood'', JString [])])\<close>
proof (intro conjI)
  show \<open>parse_response json_loads_sample
      ''```json\<newline>{"genres": ["Comedy"], "themes": ["love"], "mood": "lighthearted", "target_audience": "teens", "content_warnings": []}\<newline>```''
    = Inr (JObject [(''genres'', JArray [JString ''Comedy'']),
                    (''themes'', JArray [JString ''love'']),
                    (''mood'', JString ''lighthearted''),
                    (''target_audience'', JString ''teens''),
                    (''content_warnings'', JArray [])])\<close>
    using fenced_round_trip [of "[]" "''\<newline>''" "''\<newline>''" "[]" "''json''"
        \<open>''{"genres": ["Comedy"], "themes": ["love"], "mood": "lighthearted", "target_audience": "teens", "content_warnings": []}''\<close>
        json_loads_sample]
    by (simp add: bare_payload_def isspace_def json_loads_sample_def)
  show \<open>parse_response json_loads_sample ''  ``` {"mood": ""}\<newline>```  \<newline>''
    = Inr (JObject [(''mood'', JString [])])\<close>
    using fenced_round_trip [of "''  ''" "'' ''" "''\<newline>''" "''  \<newline>''" "[]"
        \<open>''{"mood": ""}''\<close> json_loads_sample]
    by (simp add: bare_payload_def isspace_def json_loads_sample_def)
qed

text \<open>
  Claim C5 as it is stated fails for a value with a run of three backticks in a string:
  the cleanup removes the run from the payload too, and the parser returns another value.
\<close>

theorem fenced_round_trip_counterexample:
  \<open>json_loads_sample ''{"mood": "```"}'' = Inr (JObject [(''mood'', JString ''```'')])
   \<and> clean_json_response (''```json\<newline>'' @ ''{"mood": "```"}'' @ ''\<newline>```'') = ''{"mood": ""}''
   \<and> parse_response json_loads_sample (''```json\<newline>'' @ ''{"mood": "```"}'' @ ''\<newline>```'')
       = Inr (JObject [(''mood'', JString [])])
   \<and> JObject [(''mood'', JString [])] \<noteq> JObject [(''mood'', JString ''```'')]\<close>
  by (simp add: parse_response_def clean_json_response_def sub_marker.simps(2) strip_def
        isspace_def json_loads_sample_def)

section \<open>The extraction engine\<close>

lemma try_body_unparsable:
  assumes "call_api self s prompt = (Inr r, s')"
    and "json_loads self (clean_json_response r) = Inl (JSONDecodeError d)"
  shows "try_body self prompt s =
           (Inl (ValueError (''Invalid JSON response: '' @ d @ ''\<newline>Response was: '' @ clean_json_response r)),
            Some r, s')"
  using assms by (simp add: try_body_def parse_response_def)

lemma try_body_valid:
  assumes "call_api self s prompt = (Inr r, s')"
    and "json_loads self (clean_json_response r) = Inr data"
    and "validate data = Inr md"
  shows "try_body self prompt s = (Inr md, Some r, s')"
  using assms by (simp add: try_body_def parse_response_def)

lemma validate_contained: "validate (JObject kwargs) = Inl e \<Longrightarrow> caught e"
  by (auto simp: validate_def ContentMetadata_new_def Let_def split: sum.splits prod.splits)

lemma parse_response_contained:
  assumes "case loads (clean_json_response raw) of Inl e \<Rightarrow> caught e | Inr _ \<Rightarrow> True"
    and "parse_response loads raw = Inl e"
  shows "caught e"
  using assms by (auto simp: parse_response_def Let_def split: sum.splits exn.splits)

lemma try_body_contained:
  assumes "contained self (fst (call_api self s prompt))"
    and "try_body self prompt s = (Inl e, b, s')"
  shows "caught e"
proof (cases "call_api self s prompt")
  case (Pair r s1)
  show ?thesis
  proof (cases r)
    case (Inl e1)
    with Pair assms show ?thesis by (simp add: try_body_def contained_def)
  next
    case (Inr raw)
    show ?thesis
    proof (cases "parse_response (json_loads self) raw")
      case (Inl e1)
      with Pair Inr assms have "e = e1" by (simp add: try_body_def)
      moreover from Pair Inr assms(1)
      have "case json_loads self (clean_json_response raw) of Inl e \<Rightarrow> caught e | Inr _ \<Rightarrow> True"
        by (auto simp: contained_def split: sum.splits)
      ultimately show ?thesis using Inl parse_response_contained [of "json_loads self" raw e1] by simp
    next
      case (Inr data)
      note data = this
      with Pair \<open>r = Inr raw\<close> assms(1) obtain kwargs where "data = JObject kwargs"
        by (auto simp: contained_def parse_response_def Let_def split: sum.splits json.splits exn.splits)
      with Pair \<open>r = Inr raw\<close> data assms(2) show ?thesis
        by (auto simp: try_body_def split: sum.splits dest: validate_contained)
    qed
  qed
qed

lemma extract_loop_returns:
  assumes "\<forall>s prompt. contained self (fst (call_api self s prompt))"
  shows "\<exists>env s'. extract_loop self d atts prompt le raw s = (Inr env, s')"
proof (induction atts arbitrary: prompt le raw s)
  case Nil
  show ?case by simp
next
  case (Cons a atts)
  define p where "p = (if a > 0 then RETRY_PROMPT_format (str_last_error self le) d else prompt)"
  obtain r b s1 where tb: "try_body self p s = (r, b, s1)" by (cases "try_body self p s") auto
  show ?case
  proof (cases r)
    case (Inl e)
    from assms have "contained self (fst (call_api self s p))" by simp
    from try_body_contained [OF this] tb Inl have "caught e" by simp
    with Inl tb Cons.IH show ?thesis by (simp add: p_def [symmetric] Let_def)
  next
    case (Inr md)
    with tb show ?thesis by (simp add: p_def [symmetric] Let_def)
  qed
qed

lemma counting_fields [simp]:
  "max_retries (counting self) = max_retries self"
  "json_loads (counting self) = json_loads self"
  "schema_json (counting self) = schema_json self"
  "validation_error_str (counting self) = validation_error_str self"
  by (simp_all add: counting_def)

lemma str_last_error_counting [simp]:
  "str_last_error (counting self) le = str_last_error self le"
proof (cases le)
  case None
  then show ?thesis by simp
next
  case (Some e)
  then show ?thesis by (cases e) simp_all
qed

lemma get_schema_string_counting [simp]:
  "get_schema_string (counting self) = get_schema_string self"
  by (simp add: get_schema_string_def)

lemma try_body_counting:
  "try_body (counting self) prompt (s, n) =
     (case try_body self prompt s of (r, b, s') \<Rightarrow> (r, b, (s', Suc n)))"
  by (simp add: try_body_def counting_def split: prod.splits sum.splits)

lemma extract_loop_counting:
  assumes "extract_loop (counting self) d atts prompt le raw (s, n) = (res, (s', n'))"
  shows "extract_loop self d atts prompt le raw s = (res, s')
         \<and> n \<le> n' \<and> n' \<le> n + length atts \<and> (atts \<noteq> [] \<longrightarrow> n < n')
         \<and> (\<forall>env. res = Inr env \<longrightarrow>
               (if success env then \<exists>i < length atts. retries env = atts ! i \<and> n' = n + i + 1
                else retries env = max_retries self \<and> n' = n + length atts))"
  using assms
proof (induction atts arbitrary: prompt le raw s n)
  case Nil
  then show ?case by auto
next
  case (Cons a atts)
  define p where "p = (if a > 0 then RETRY_PROMPT_format (str_last_error self le) d else prompt)"
  obtain r b s1 where tb: "try_body self p s = (r, b, s1)" by (cases "try_body self p s") auto
  then have tbc: "try_body (counting self) p (s, n) = (r, b, (s1, Suc n))"
    by (simp add: try_body_counting)
  have pc: "(if 0 < a then RETRY_PROMPT_format (str_last_error (counting self) le) d else prompt) = p"
    by (simp add: p_def cong: if_cong)
  show ?case
  proof (cases r)
    case (Inr md)
    with tb tbc Cons.prems show ?thesis
      by (auto simp: pc p_def [symmetric] Let_def)
  next
    case (Inl e)
    show ?thesis
    proof (cases "caught e")
      case False
      with Inl tb tbc Cons.prems show ?thesis
        by (auto simp: pc p_def [symmetric] Let_def)
    next
      case True
      define raw' where "raw' = (case b of None \<Rightarrow> raw | Some r \<Rightarrow> Some r)"
      from True Inl tbc Cons.prems
      have "extract_loop (counting self) d atts p (Some e) raw' (s1, Suc n) = (res, (s', n'))"
        by (simp add: pc Let_def raw'_def)
      note step = Cons.IH [OF this]
      note IH = step [THEN conjunct1] step [THEN conjunct2, THEN conjunct1]
        step [THEN conjunct2, THEN conjunct2, THEN conjunct1]
        step [THEN conjunct2, THEN conjunct2, THEN conjunct2, THEN conjunct2]
      have 1: "extract_loop self d (a # atts) prompt le raw s = (res, s')"
        using True Inl tb IH(1) by (simp add: p_def [symmetric] Let_def raw'_def)
      have 2: "\<forall>env. res = Inr env \<longrightarrow>
               (if success env then \<exists>i < length (a # atts). retries env = (a # atts) ! i \<and> n' = n + i + 1
                else retries env = max_retries self \<and> n' = n + length (a # atts))"
      proof (intro allI impI)
        fix env assume "res = Inr env"
        with IH(4) have *: "if success env then \<exists>i < length atts. retries env = atts ! i \<and> n' = Suc n + i + 1
                else retries env = max_retries self \<and> n' = Suc n + length atts" by simp
        show "if success env then \<exists>i < length (a # atts). retries env = (a # atts) ! i \<and> n' = n + i + 1
                else retries env = max_retries self \<and> n' = n + length (a # atts)"
        proof (cases "success env")
          case True
          with * obtain i where "i < length atts" "retries env = atts ! i" "n' = Suc n + i + 1" by auto
          then have "Suc i < length (a # atts) \<and> retries env = (a # atts) ! Suc i \<and> n' = n + Suc i + 1"
            by simp
          with True show ?thesis by (auto intro: exI [of _ "Suc i"])
        next
          case False
          with * show ?thesis by simp
        qed
      qed
      from 1 2 IH(2,3) show ?thesis by simp
    qed
  qed
qed

lemma extract_counting:
  assumes "extract (counting self) d (s, 0) = (res, (s', n))"
  shows "extract self d s = (res, s') \<and> 1 \<le> n \<and> n \<le> 1 + max_retries self
         \<and> (\<forall>env. res = Inr env \<longrightarrow>
               (if success env then retries env + 1 = n
                else retries env = max_retries self \<and> n = 1 + max_retries self))"
proof -
  define atts where "atts = [0..<1 + max_retries self]"
  have len: "length atts = 1 + max_retries self" and ne: "atts \<noteq> []"
    and nth: "\<And>i. i < length atts \<Longrightarrow> atts ! i = i"
    by (simp_all add: atts_def del: upt_Suc)
  from assms have "extract_loop (counting self) d atts
      (EXTRACTION_PROMPT_format d (get_schema_string self)) None None (s, 0) = (res, (s', n))"
    by (simp add: extract_def Let_def atts_def del: upt_Suc)
  note step = extract_loop_counting [OF this]
  from step have 1: "extract self d s = (res, s')"
    by (simp add: extract_def Let_def atts_def del: upt_Suc)
  from step ne len have 2: "1 \<le> n" and 3: "n \<le> 1 + max_retries self"
    by simp_all
  have 4: "\<forall>env. res = Inr env \<longrightarrow>
               (if success env then retries env + 1 = n
                else retries env = max_retries self \<and> n = 1 + max_retries self)"
  proof (intro allI impI)
    fix env assume "res = Inr env"
    then have *: "if success env then \<exists>i < length atts. retries env = atts ! i \<and> n = 0 + i + 1
                else retries env = max_retries self \<and> n = 0 + length atts"
      by (rule step [THEN conjunct2, THEN conjunct2, THEN conjunct2, THEN conjunct2, THEN spec, THEN mp])
    show "if success env then retries env + 1 = n
          else retries env = max_retries self \<and> n = 1 + max_retries self"
    proof (cases "success env")
      case True
      with * obtain i where "i < length atts" "retries env = atts ! i" "n = 0 + i + 1" by auto
      with nth True show ?thesis by simp
    next
      case False
      with * len show ?thesis by simp
    qed
  qed
  from 1 2 3 4 show ?thesis by simp
qed

lemma upt_two_attempts: "0 < m \<Longrightarrow> [0..<1 + m] = 0 # Suc 0 # [Suc (Suc 0)..<1 + m]"
  by (simp add: upt_conv_Cons del: upt_Suc)

lemma extract_second_attempt:
  assumes "0 < max_retries self"
    and "call_api self s0 (EXTRACTION_PROMPT_format d (get_schema_string self)) = (Inr r0, s1)"
    and "json_loads self (clean_json_response r0) = Inl (JSONDecodeError d0)"
    and "call_api self s1
           (RETRY_PROMPT_format
              (''Invalid JSON response: '' @ d0 @ ''\<newline>Response was: '' @ clean_json_response r0) d)
         = (Inr r1, s2)"
    and "json_loads self (clean_json_response r1) = Inr data"
    and "validate data = Inr md"
  shows "extract self d s0 =
           (Inr \<lparr>metadata = Some md, raw_response = Some r1, retries = 1, success = True,
                 error = None\<rparr>, s2)"
proof -
  have atts: "[0..<1 + max_retries self] = 0 # Suc 0 # [Suc (Suc 0)..<1 + max_retries self]"
    by (rule upt_two_attempts [OF assms(1)])
  show ?thesis
    unfolding extract_def Let_def atts
    using try_body_unparsable [OF assms(2,3)] try_body_valid [OF assms(4,5,6)]
    by simp
qed

lemma extract_exhausted:
  assumes "max_retries self = 2"
    and "call_api self s0 (EXTRACTION_PROMPT_format d (get_schema_string self)) = (Inr r0, s1)"
    and "json_loads self (clean_json_response r0) = Inl (JSONDecodeError d0)"
    and "call_api self s1
           (RETRY_PROMPT_format
              (''Invalid JSON response: '' @ d0 @ ''\<newline>Response was: '' @ clean_json_response r0) d)
         = (Inr r1, s2)"
    and "json_loads self (clean_json_response r1) = Inl (JSONDecodeError d1)"
    and "call_api self s2
           (RETRY_PROMPT_format
              (''Invalid JSON response: '' @ d1 @ ''\<newline>Response was: '' @ clean_json_response r1) d)
         = (Inr r2, s3)"
    and "json_loads self (clean_json_response r2) = Inl (JSONDecodeError d2)"
  shows "extract self d s0 =
           (Inr \<lparr>metadata = None, raw_response = Some r2, retries = 2, success = False,
                 error = Some (''Invalid JSON response: '' @ d2 @ ''\<newline>Response was: ''
                               @ clean_json_response r2)\<rparr>, s3)"
proof -
  have atts: "[0..<1 + max_retries self] = [0, Suc 0, Suc (Suc 0)]"
    unfolding assms(1) by (simp add: upt_conv_Cons del: upt_Suc)
  show ?thesis
    unfolding extract_def Let_def atts
    using try_body_unparsable [OF assms(2,3)] try_body_unparsable [OF assms(4,5)]
      try_body_unparsable [OF assms(6,7)] assms(1)
    by simp
qed

lemma extract_first_call_raises:
  assumes "call_api self s (EXTRACTION_PROMPT_format d (get_schema_string self)) = (Inl e, s')"
    and "\<not> caught e"
  shows "extract self d s = (Inl e, s')"
proof -
  have atts: "[0..<1 + max_retries self] = 0 # [Suc 0..<1 + max_retries self]"
    by (simp add: upt_conv_Cons del: upt_Suc)
  from assms(1) have "try_body self (EXTRACTION_PROMPT_format d (get_schema_string self)) s = (Inl e, None, s')"
    by (simp add: try_body_def)
  with assms(2) show ?thesis
    unfolding extract_def Let_def atts by simp
qed

lemma extract_returns:
  assumes "\<forall>s prompt. contained self (fst (call_api self s prompt))"
  shows "\<exists>env s'. extract self d s = (Inr env, s')"
  unfolding extract_def Let_def by (rule extract_loop_returns [OF assms])

text \<open>
  Claim C1. (1) When the first response does not parse and the second, asked for with the
  retry prompt that carries the parse error, parses and validates, \<^verbatim>\<open>extract\<close> returns
  the success envelope with one retry. (2) With \<^verbatim>\<open>max_retries\<close> at 2, when the three
  responses do not parse, it returns the failure envelope with two retries, the message
  of the last parse error (which is not empty) and the last raw text. (3) In general, run
  with a service that counts its calls, \<^verbatim>\<open>extract\<close> returns what it returns without the
  counter, makes at least one call and at most \<open>1 + max_retries\<close>, reports \<open>n - 1\<close> retries
  when it succeeds at the \<open>n\<close>-th call, and reports \<open>max_retries\<close> retries after all the
  \<open>1 + max_retries\<close> calls when it fails.
\<close>

theorem extract_retry_semantics:
  "(0 < max_retries self
      \<and> call_api self s0 (EXTRACTION_PROMPT_format d (get_schema_string self)) = (Inr r0, s1)
      \<and> json_loads self (clean_json_response r0) = Inl (JSONDecodeError d0)
      \<and> call_api self s1
           (RETRY_PROMPT_format
              (''Invalid JSON response: '' @ d0 @ ''\<newline>Response was: '' @ clean_json_response r0) d)
         = (Inr r1, s2)
      \<and> json_loads self (clean_json_response r1) = Inr data
      \<and> validate data = Inr md
    \<longrightarrow> extract self d s0 =
          (Inr \<lparr>metadata = Some md, raw_response = Some r1, retries = 1, success = True,
                error = None\<rparr>, s2))
   \<and> (max_retries self = 2
      \<and> call_api self s0 (EXTRACTION_PROMPT_format d (get_schema_string self)) = (Inr r0, s1)
      \<and> json_loads self (clean_json_response r0) = Inl (JSONDecodeError d0)
      \<and> call_api self s1
           (RETRY_PROMPT_format
              (''Invalid JSON response: '' @ d0 @ ''\<newline>Response was: '' @ clean_json_response r0) d)
         = (Inr r1, s2)
      \<and> json_loads self (clean_json_response r1) = Inl (JSONDecodeError d1)
      \<and> call_api self s2
           (RETRY_PROMPT_format
              (''Invalid JSON response: '' @ d1 @ ''\<newline>Response was: '' @ clean_json_response r1) d)
         = (Inr r2, s3)
      \<and> json_loads self (clean_json_response r2) = Inl (JSONDecodeError d2)
    \<longrightarrow> extract self d s0 =
          (Inr \<lparr>metadata = None, raw_response = Some r2, retries = 2, success = False,
                error = Some (''Invalid JSON response: '' @ d2 @ ''\<newline>Response was: ''
                              @ clean_json_response r2)\<rparr>, s3)
        \<and> ''Invalid JSON response: '' @ d2 @ ''\<newline>Response was: '' @ clean_json_response r2 \<noteq> [])
   \<and> (extract (counting self) d (s0, 0) = (res, (s', n))
    \<longrightarrow> extract self d s0 = (res, s') \<and> 1 \<le> n \<and> n \<le> 1 + max_retries self
        \<and> (\<forall>env. res = Inr env \<longrightarrow>
              (if success env then retries env + 1 = n
               else retries env = max_retries self \<and> n = 1 + max_retries self)))"
proof -
  have first: "0 < max_retries self
      \<and> call_api self s0 (EXTRACTION_PROMPT_format d (get_schema_string self)) = (Inr r0, s1)
      \<and> json_loads self (clean_json_response r0) = Inl (JSONDecodeError d0)
      \<and> call_api self s1
           (RETRY_PROMPT_format
              (''Invalid JSON response: '' @ d0 @ ''\<newline>Response was: '' @ clean_json_response r0) d)
         = (Inr r1, s2)
      \<and> json_loads self (clean_json_response r1) = Inr data
      \<and> validate data = Inr md
    \<longrightarrow> extract self d s0 =
          (Inr \<lparr>metadata = Some md, raw_response = Some r1, retries = 1, success = True,
                error = None\<rparr>, s2)"
    by (rule impI, elim conjE) (rule extract_second_attempt, assumption+)
  have second: "max_retries self = 2
      \<and> call_api self s0 (EXTRACTION_PROMPT_format d (get_schema_string self)) = (Inr r0, s1)
      \<and> json_loads self (clean_json_response r0) = Inl (JSONDecodeError d0)
      \<and> call_api self s1
           (RETRY_PROMPT_format
              (''Invalid JSON response: '' @ d0 @ ''\<newline>Response was: '' @ clean_json_response r0) d)
         = (Inr r1, s2)
      \<and> json_loads self (clean_json_response r1) = Inl (JSONDecodeError d1)
      \<and> call_api self s2
           (RETRY_PROMPT_format
              (''Invalid JSON response: '' @ d1 @ ''\<newline>Response was: '' @ clean_json_response r1) d)
         = (Inr r2, s3)
      \<and> json_loads self (clean_json_response r2) = Inl (JSONDecodeError d2)
    \<longrightarrow> extract self d s0 =
          (Inr \<lparr>metadata = None, raw_response = Some r2, retries = 2, success = False,
                error = Some (''Invalid JSON response: '' @ d2 @ ''\<newline>Response was: ''
                              @ clean_json_response r2)\<rparr>, s3)
        \<and> ''Invalid JSON response: '' @ d2 @ ''\<newline>Response was: '' @ clean_json_response r2 \<noteq> []"
  proof (rule impI, elim conjE, rule conjI)
    show "''Invalid JSON response: '' @ d2 @ ''\<newline>Response was: '' @ clean_json_response r2 \<noteq> []"
      by simp
  qed (rule extract_exhausted, assumption+)
  have third: "extract (counting self) d (s0, 0) = (res, (s', n))
    \<longrightarrow> extract self d s0 = (res, s') \<and> 1 \<le> n \<and> n \<le> 1 + max_retries self
        \<and> (\<forall>env. res = Inr env \<longrightarrow>
              (if success env then retries env + 1 = n
               else retries env = max_retries self \<and> n = 1 + max_retries self))"
    by (rule impI) (rule extract_counting)
  show ?thesis
    by (rule conjI [OF first conjI [OF second third]])
qed













lemma sample_extractor_fields [simp]:
  "call_api (sample_extractor api) = api"
  "max_retries (sample_extractor api) = 2"
  "json_loads (sample_extractor api) = json_loads_sample"
  by (simp_all add: sample_extractor_def)

lemmas run_simps = json_loads_sample_def clean_json_response_def
  sub_marker.simps(2) strip_def isspace_def mock_return_value_def

lemma valid_sample_validates:
  "validate (JObject [(''genres'', JArray [JString ''Comedy'']),
                         (''themes'', JArray [JString ''love'']),
                         (''mood'', JString ''lighthearted''),
                         (''target_audience'', JString ''teens''),
                         (''content_warnings'', JArray [])])
    = Inr \<lparr>genres = [''Comedy''], themes = [''love''], mood = ''lighthearted'',
            target_audience = ''teens'', content_warnings = []\<rparr>"
  by (simp add: validate_def ContentMetadata_new_def required_field_def default_field_def
        validate_list_str_def validate_str_def)

lemma try_body_not_json:
  "try_body (counting (sample_extractor (mock_return_value ''Not JSON''))) prompt ((), n)
     = (Inl (ValueError ''Invalid JSON response: Expecting value: line 1 column 1 (char 0)\<newline>Response was: Not JSON''),
        Some ''Not JSON'', ((), Suc n))"
  by (simp add: try_body_def counting_def parse_response_def run_simps)

lemma counted_run_not_json:
  \<open>extract (counting (sample_extractor (mock_return_value ''Not JSON''))) ''Test description'' ((), 0)
    = (Inr \<lparr>metadata = None, raw_response = Some ''Not JSON'', retries = 2, success = False,
            error = Some ''Invalid JSON response: Expecting value: line 1 column 1 (char 0)\<newline>Response was: Not JSON''\<rparr>, ((), 3))\<close>
proof -
  have atts: "[0..<1 + max_retries (counting (sample_extractor (mock_return_value ''Not JSON'')))]
                = [0, Suc 0, Suc (Suc 0)]"
    by (simp add: upt_conv_Cons del: upt_Suc)
  show ?thesis
    unfolding extract_def Let_def atts
    by (simp add: try_body_not_json numeral_3_eq_3)
qed

text \<open>
  The theorem at the runs of the test suite: \<^verbatim>\<open>test_retry_on_invalid_json\<close> (a text that
  is no JSON, then a valid payload), three texts that are no JSON, and
  \<^verbatim>\<open>test_all_retries_fail\<close> with the calls counted: three calls, and the same envelope
  without the counter.
\<close>

theorem extract_retry_semantics_witness:
  \<open>extract (sample_extractor mock_side_effect) ''A fun romantic comedy''
      [Inr ''Not valid JSON'',
       Inr ''{"genres": ["Comedy"], "themes": ["love"], "mood": "lighthearted", "target_audience": "teens", "content_warnings": []}'']
    = (Inr \<lparr>metadata = Some \<lparr>genres = [''Comedy''], themes = [''love''], mood = ''lighthearted'',
                                target_audience = ''teens'', content_warnings = []\<rparr>,
            raw_response = Some ''{"genres": ["Comedy"], "themes": ["love"], "mood": "lighthearted", "target_audience": "teens", "content_warnings": []}'',
            retries = 1, success = True, error = None\<rparr>, [])
   \<and> extract (sample_extractor mock_side_effect) ''Test description''
      [Inr ''Not JSON'', Inr ''Not valid JSON'', Inr ''{"genres": ["Drama"'']
    = (Inr \<lparr>metadata = None, raw_response = Some ''{"genres": ["Drama"'', retries = 2, success = False,
            error = Some ''Invalid JSON response: Expecting ',' delimiter: line 1 column 20 (char 19)\<newline>Response was: {"genres": ["Drama"''\<rparr>, [])
   \<and> extract (counting (sample_extractor (mock_return_value ''Not JSON''))) ''Test description'' ((), 0)
    = (Inr \<lparr>metadata = None, raw_response = Some ''Not JSON'', retries = 2, success = False,
            error = Some ''Invalid JSON response: Expecting value: line 1 column 1 (char 0)\<newline>Response was: Not JSON''\<rparr>, ((), 3))
   \<and> extract (sample_extractor (mock_return_value ''Not JSON'')) ''Test description'' ()
    = (Inr \<lparr>metadata = None, raw_response = Some ''Not JSON'', retries = 2, success = False,
            error = Some ''Invalid JSON response: Expecting value: line 1 column 1 (char 0)\<newline>Response was: Not JSON''\<rparr>, ())\<close>
proof -
  have first: \<open>extract (sample_extractor mock_side_effect) ''A fun romantic comedy''
      [Inr ''Not valid JSON'',
       Inr ''{"genres": ["Comedy"], "themes": ["love"], "mood": "lighthearted", "target_audience": "teens", "content_warnings": []}'']
    = (Inr \<lparr>metadata = Some \<lparr>genres = [''Comedy''], themes = [''love''], mood = ''lighthearted'',
                                target_audience = ''teens'', content_warnings = []\<rparr>,
            raw_response = Some ''{"genres": ["Comedy"], "themes": ["love"], "mood": "lighthearted", "target_audience": "teens", "content_warnings": []}'',
            retries = 1, success = True, error = None\<rparr>, [])\<close>
    using extract_retry_semantics [where self = "sample_extractor mock_side_effect"
      and d = "''A fun romantic comedy''"
      and ?s0.0 = \<open>[Inr ''Not valid JSON'',
       Inr ''{"genres": ["Comedy"], "themes": ["love"], "mood": "lighthearted", "target_audience": "teens", "content_warnings": []}'']\<close>
      and ?r0.0 = "''Not valid JSON''"
      and ?s1.0 = \<open>[Inr ''{"genres": ["Comedy"], "themes": ["love"], "mood": "lighthearted", "target_audience": "teens", "content_warnings": []}'']\<close>
      and ?d0.0 = "''Expecting value: line 1 column 1 (char 0)''"
      and ?r1.0 = \<open>''{"genres": ["Comedy"], "themes": ["love"], "mood": "lighthearted", "target_audience": "teens", "content_warnings": []}''\<close>
      and ?s2.0 = "[]"
      and data = "JObject [(''genres'', JArray [JString ''Comedy'']),
                         (''themes'', JArray [JString ''love'']),
                         (''mood'', JString ''lighthearted''),
                         (''target_audience'', JString ''teens''),
                         (''content_warnings'', JArray [])]"
      and md = "\<lparr>genres = [''Comedy''], themes = [''love''], mood = ''lighthearted'',
                                target_audience = ''teens'', content_warnings = []\<rparr>",
      THEN conjunct1]
    by (simp add: run_simps valid_sample_validates)
  have second: \<open>extract (sample_extractor mock_side_effect) ''Test description''
      [Inr ''Not JSON'', Inr ''Not valid JSON'', Inr ''{"genres": ["Drama"'']
    = (Inr \<lparr>metadata = None, raw_response = Some ''{"genres": ["Drama"'', retries = 2, success = False,
            error = Some ''Invalid JSON response: Expecting ',' delimiter: line 1 column 20 (char 19)\<newline>Response was: {"genres": ["Drama"''\<rparr>, [])\<close>
    using extract_retry_semantics [where self = "sample_extractor mock_side_effect"
      and d = "''Test description''"
      and ?s0.0 = \<open>[Inr ''Not JSON'', Inr ''Not valid JSON'', Inr ''{"genres": ["Drama"'']\<close>
      and ?s1.0 = \<open>[Inr ''Not valid JSON'', Inr ''{"genres": ["Drama"'']\<close>
      and ?s2.0 = \<open>[Inr ''{"genres": ["Drama"'']\<close> and ?s3.0 = "[]"
      and ?r0.0 = "''Not JSON''" and ?r1.0 = "''Not valid JSON''" and ?r2.0 = \<open>''{"genres": ["Drama"''\<close>
      and ?d0.0 = "''Expecting value: line 1 column 1 (char 0)''"
      and ?d1.0 = "''Expecting value: line 1 column 1 (char 0)''"
      and ?d2.0 = "''Expecting ',' delimiter: line 1 column 20 (char 19)''",
      THEN conjunct2, THEN conjunct1]
    by (simp add: run_simps)
  note third = counted_run_not_json
  have fourth: \<open>extract (sample_extractor (mock_return_value ''Not JSON'')) ''Test description'' ()
    = (Inr \<lparr>metadata = None, raw_response = Some ''Not JSON'', retries = 2, success = False,
            error = Some ''Invalid JSON response: Expecting value: line 1 column 1 (char 0)\<newline>Response was: Not JSON''\<rparr>, ())\<close>
    using extract_retry_semantics [where self = "sample_extractor (mock_return_value ''Not JSON'')"
      and d = "''Test description''" and ?s0.0 = "()" and s' = "()" and n = 3
      and res = \<open>Inr \<lparr>metadata = None, raw_response = Some ''Not JSON'', retries = 2, success = False,
            error = Some ''Invalid JSON response: Expecting value: line 1 column 1 (char 0)\<newline>Response was: Not JSON''\<rparr>\<close>,
      THEN conjunct2, THEN conjunct2, THEN mp, OF third]
    by simp
  show ?thesis
    by (rule conjI [OF first conjI [OF second conjI [OF third fourth]]])
qed


lemma try_body_side_effect_not_json:
  "try_body (sample_extractor mock_side_effect) prompt (Inr ''Not JSON'' # rest)
     = (Inl (ValueError ''Invalid JSON response: Expecting value: line 1 column 1 (char 0)\<newline>Response was: Not JSON''),
        Some ''Not JSON'', rest)"
  by (simp add: try_body_def parse_response_def run_simps)

lemma side_effect_exhausted:
  \<open>extract (sample_extractor mock_side_effect) d
      (Inr ''Not JSON'' # Inr ''Not JSON'' # Inr ''Not JSON'' # rest)
    = (Inr \<lparr>metadata = None, raw_response = Some ''Not JSON'', retries = 2, success = False,
            error = Some ''Invalid JSON response: Expecting value: line 1 column 1 (char 0)\<newline>Response was: Not JSON''\<rparr>, rest)\<close>
proof -
  have atts: "[0..<1 + max_retries (sample_extractor mock_side_effect :: (exn + string) list NetflixExtractor)]
                = [0, Suc 0, Suc (Suc 0)]"
    by (simp add: upt_conv_Cons del: upt_Suc)
  show ?thesis
    unfolding extract_def Let_def atts
    by (simp add: try_body_side_effect_not_json)
qed


text \<open>
  A response that parses to a value that is no mapping is outside the amended claim: the
  call \<^verbatim>\<open>ContentMetadata(**data)\<close> raises a \<^verbatim>\<open>TypeError\<close>, which the \<^verbatim>\<open>except\<close>
  clause does not catch. Here the service answers with the JSON text of an empty list.
\<close>

lemma extract_list_payload:
  "extract (sample_extractor (mock_return_value ''[]'')) ''Test description'' ()
    = (Inl (TypeError ''ContentMetadata() argument after ** must be a mapping, not list''), ())"
proof -
  have atts: "[0..<1 + max_retries (sample_extractor (mock_return_value ''[]''))]
                = [0, Suc 0, Suc (Suc 0)]"
    by (simp add: upt_conv_Cons del: upt_Suc)
  show ?thesis
    unfolding extract_def Let_def atts
    by (simp add: try_body_def parse_response_def validate_def run_simps)
qed

section \<open>The batch runner\<close>

lemma truncate_with_item [simp]: "ExtractionResult.truncate (with_item r t d) = r"
  by (simp add: with_item_def ExtractionResult.truncate_def)

lemma title_with_item [simp]: "title (with_item r t d) = t" "description (with_item r t d) = d"
  by (simp_all add: with_item_def)

lemma extract_batch_loop_results:
  assumes "\<forall>i < length items. \<exists>env.
             fst (extract self (item_description (items ! i)) (service_after self (take i items) s))
               = Inr env"
  shows "\<exists>rs. extract_batch_loop self k items acc s = (Inr (acc @ rs), service_after self items s)
            \<and> length rs = length items
            \<and> (\<forall>i < length items.
                  title (rs ! i) = item_title (k + i) (items ! i)
                  \<and> description (rs ! i) = item_description (items ! i)
                  \<and> fst (extract self (item_description (items ! i))
                           (service_after self (take i items) s))
                      = Inr (ExtractionResult.truncate (rs ! i)))"
  using assms
proof (induction items arbitrary: k acc s)
  case Nil
  show ?case by simp
next
  case (Cons item rest)
  define t where "t = item_title k item"
  define d where "d = item_description item"
  from Cons.prems [THEN spec, of 0] obtain env where "fst (extract self d s) = Inr env"
    by (auto simp: d_def)
  then obtain s1 where ex: "extract self d s = (Inr env, s1)"
    by (cases "extract self d s") auto
  have calls: "\<forall>i < length rest. \<exists>env.
             fst (extract self (item_description (rest ! i)) (service_after self (take i rest) s1))
               = Inr env"
  proof (intro allI impI)
    fix i assume "i < length rest"
    with Cons.prems [THEN spec, of "Suc i"] ex
    show "\<exists>env. fst (extract self (item_description (rest ! i)) (service_after self (take i rest) s1))
               = Inr env"
      by (simp add: d_def)
  qed
  from Cons.IH [OF calls, of "k + 1" "acc @ [with_item env t d]"]
  obtain rs where rs: "extract_batch_loop self (k + 1) rest (acc @ [with_item env t d]) s1
        = (Inr ((acc @ [with_item env t d]) @ rs), service_after self rest s1)"
      "length rs = length rest"
      "\<forall>i < length rest.
          title (rs ! i) = item_title (k + 1 + i) (rest ! i)
          \<and> description (rs ! i) = item_description (rest ! i)
          \<and> fst (extract self (item_description (rest ! i)) (service_after self (take i rest) s1))
              = Inr (ExtractionResult.truncate (rs ! i))"
    by auto
  have 1: "extract_batch_loop self k (item # rest) acc s
             = (Inr (acc @ (with_item env t d # rs)), service_after self (item # rest) s)"
    using ex rs(1) by (simp add: t_def [symmetric] d_def [symmetric] Let_def)
  have 2: "length (with_item env t d # rs) = length (item # rest)"
    using rs(2) by simp
  have 3: "\<forall>i < length (item # rest).
          title ((with_item env t d # rs) ! i) = item_title (k + i) ((item # rest) ! i)
          \<and> description ((with_item env t d # rs) ! i) = item_description ((item # rest) ! i)
          \<and> fst (extract self (item_description ((item # rest) ! i))
                   (service_after self (take i (item # rest)) s))
              = Inr (ExtractionResult.truncate ((with_item env t d # rs) ! i))"
  proof (intro allI impI)
    fix i assume i: "i < length (item # rest)"
    show "title ((with_item env t d # rs) ! i) = item_title (k + i) ((item # rest) ! i)
          \<and> description ((with_item env t d # rs) ! i) = item_description ((item # rest) ! i)
          \<and> fst (extract self (item_description ((item # rest) ! i))
                   (service_after self (take i (item # rest)) s))
              = Inr (ExtractionResult.truncate ((with_item env t d # rs) ! i))"
    proof (cases i)
      case 0
      with ex show ?thesis by (simp add: t_def d_def)
    next
      case (Suc j)
      with i have "j < length rest" by simp
      with rs(3) Suc ex show ?thesis by (simp add: d_def)
    qed
  qed
  from 1 2 3 show ?case by (intro exI [of _ "with_item env t d # rs"] conjI)
qed

lemma extract_batch_results:
  assumes "\<forall>i < length items. \<exists>env.
             fst (extract self (item_description (items ! i)) (service_after self (take i items) s))
               = Inr env"
  shows "\<exists>rs. extract_batch self items s = (Inr rs, service_after self items s)
            \<and> length rs = length items
            \<and> (\<forall>i < length items.
                  title (rs ! i) = item_title i (items ! i)
                  \<and> description (rs ! i) = item_description (items ! i)
                  \<and> fst (extract self (item_description (items ! i))
                           (service_after self (take i items) s))
                      = Inr (ExtractionResult.truncate (rs ! i)))"
  using extract_batch_loop_results [OF assms, of 0 "[]"]
  by (simp add: extract_batch_def)

lemma three_attempts: "m = 2 \<Longrightarrow> [0..<1 + m] = [0, Suc 0, Suc (Suc 0)]"
  by (simp add: upt_conv_Cons del: upt_Suc)

lemma str_nat_two: "str_nat (Suc (Suc 0)) = ''2''" "str_nat 2 = ''2''"
  by code_simp+

lemma all_less_two: "(\<forall>i < 2. P i) \<longleftrightarrow> P (0::nat) \<and> P 1"
  by (auto simp: less_2_cases_iff)

lemma extract_batch_loop_append:
  "extract_batch_loop self k (xs @ ys) acc s =
     (case extract_batch_loop self k xs acc s of
        (Inl e, s') \<Rightarrow> (Inl e, s')
      | (Inr rs, s') \<Rightarrow> extract_batch_loop self (k + length xs) ys rs s')"
proof (induction xs arbitrary: k acc s)
  case Nil
  show ?case by simp
next
  case (Cons item rest)
  obtain r s1 where ex: "extract self (item_description item) s = (r, s1)"
    by (cases "extract self (item_description item) s") auto
  show ?case
  proof (cases r)
    case (Inl e)
    with ex show ?thesis by (simp add: Let_def)
  next
    case (Inr env)
    with ex Cons.IH [of "k + 1" "acc @ [with_item env (item_title k item) (item_description item)]" s1]
    show ?thesis by (simp add: Let_def split: prod.splits sum.splits)
  qed
qed

lemma extract_batch_aborts:
  assumes "extract_batch self xs s = (Inr rs, s1)"
    and "extract self (item_description item) s1 = (Inl e, s2)"
  shows "extract_batch self (xs @ item # rest) s = (Inl e, s2)"
  using assms by (simp add: extract_batch_def extract_batch_loop_append Let_def)

lemma try_body_side_effect_valid:
  \<open>try_body (sample_extractor mock_side_effect) prompt
      (Inr ''{"genres": ["Comedy"], "themes": ["love"], "mood": "lighthearted", "target_audience": "teens", "content_warnings": []}'' # rest)
     = (Inr \<lparr>genres = [''Comedy''], themes = [''love''], mood = ''lighthearted'',
               target_audience = ''teens'', content_warnings = []\<rparr>,
        Some ''{"genres": ["Comedy"], "themes": ["love"], "mood": "lighthearted", "target_audience": "teens", "content_warnings": []}'',
        rest)\<close>
  by (simp add: try_body_def parse_response_def run_simps valid_sample_validates)

lemma side_effect_valid_first:
  \<open>extract (sample_extractor mock_side_effect) d
      (Inr ''{"genres": ["Comedy"], "themes": ["love"], "mood": "lighthearted", "target_audience": "teens", "content_warnings": []}'' # rest)
    = (Inr \<lparr>metadata = Some \<lparr>genres = [''Comedy''], themes = [''love''], mood = ''lighthearted'',
                                target_audience = ''teens'', content_warnings = []\<rparr>,
            raw_response = Some ''{"genres": ["Comedy"], "themes": ["love"], "mood": "lighthearted", "target_audience": "teens", "content_warnings": []}'',
            retries = 0, success = True, error = None\<rparr>, rest)\<close>
  unfolding extract_def Let_def three_attempts [OF sample_extractor_fields(2)]
  by (simp add: try_body_side_effect_valid)

lemma side_effect_raises_first:
  "extract (sample_extractor mock_side_effect) d (Inl (OtherError msg) # rest)
     = (Inl (OtherError msg), rest)"
  by (rule extract_first_call_raises) simp_all

text \<open>
  Claim C9, amended. (1) When each call of \<^verbatim>\<open>extract\<close> that this batch makes returns an
  envelope (a failed extraction is an envelope with \<open>success = False\<close>) -- the call for
  item \<open>i\<close> is made in the state in which the items before it left the service -- the
  batch returns one result for each item, in the order of the items; the result at index
  \<open>i\<close> carries the title of item \<open>i\<close> (or \<open>Item i+1\<close> when the item has none) and its
  description, and it is the envelope that \<^verbatim>\<open>extract\<close> returned for that item. So a
  failure envelope for one item neither ends the batch nor enters the results of the
  items behind it. (2) An exception that leaves \<^verbatim>\<open>extract\<close> for an item leaves the
  batch: after items that gave results, the batch raises that exception and returns no
  results.
\<close>

theorem extract_batch_one_per_item:
  "((\<forall>i < length items. \<exists>env.
        fst (extract self (item_description (items ! i)) (service_after self (take i items) s))
          = Inr env)
      \<longrightarrow> (\<exists>rs. extract_batch self items s = (Inr rs, service_after self items s)
              \<and> length rs = length items
              \<and> (\<forall>i < length items.
                    title (rs ! i) = item_title i (items ! i)
                    \<and> description (rs ! i) = item_description (items ! i)
                    \<and> fst (extract self (item_description (items ! i))
                             (service_after self (take i items) s))
                        = Inr (ExtractionResult.truncate (rs ! i)))))
   \<and> (extract_batch self xs s = (Inr rs0, s1)
        \<and> extract self (item_description item) s1 = (Inl e, s2)
      \<longrightarrow> extract_batch self (xs @ item # rest) s = (Inl e, s2))"
proof (rule conjI)
  show "(\<forall>i < length items. \<exists>env.
        fst (extract self (item_description (items ! i)) (service_after self (take i items) s))
          = Inr env)
      \<longrightarrow> (\<exists>rs. extract_batch self items s = (Inr rs, service_after self items s)
              \<and> length rs = length items
              \<and> (\<forall>i < length items.
                    title (rs ! i) = item_title i (items ! i)
                    \<and> description (rs ! i) = item_description (items ! i)
                    \<and> fst (extract self (item_description (items ! i))
                             (service_after self (take i items) s))
                        = Inr (ExtractionResult.truncate (rs ! i))))"
    by (rule impI) (rule extract_batch_results)
  show "extract_batch self xs s = (Inr rs0, s1)
        \<and> extract self (item_description item) s1 = (Inl e, s2)
      \<longrightarrow> extract_batch self (xs @ item # rest) s = (Inl e, s2)"
    by (rule impI, elim conjE) (rule extract_batch_aborts)
qed

text \<open>The theorem at a batch of two items run with a scripted service
  (\<^verbatim>\<open>MagicMock(side_effect=[...])\<close>, which raises once its list is used up): the first
  extraction fails after three attempts, the second succeeds at once (the second item has
  no title), and the script is used up. And at a batch whose second item meets a
  rate-limit error of the service.\<close>

theorem extract_batch_one_per_item_witness:
  \<open>(\<exists>rs. extract_batch (sample_extractor mock_side_effect)
              [[''title'' \<mapsto> ''Dark Days'', ''description'' \<mapsto> ''A grim tale''],
               [''description'' \<mapsto> ''A fun romantic comedy'']]
              [Inr ''Not JSON'', Inr ''Not JSON'', Inr ''Not JSON'',
               Inr ''{"genres": ["Comedy"], "themes": ["love"], "mood": "lighthearted", "target_audience": "teens", "content_warnings": []}'']
            = (Inr rs, [])
          \<and> length rs = 2
          \<and> title (rs ! 0) = ''Dark Days'' \<and> description (rs ! 0) = ''A grim tale''
          \<and> ExtractionResult.truncate (rs ! 0)
              = \<lparr>metadata = None, raw_response = Some ''Not JSON'', retries = 2, success = False,
                 error = Some ''Invalid JSON response: Expecting value: line 1 column 1 (char 0)\<newline>Response was: Not JSON''\<rparr>
          \<and> title (rs ! 1) = ''Item 2'' \<and> description (rs ! 1) = ''A fun romantic comedy''
          \<and> ExtractionResult.truncate (rs ! 1)
              = \<lparr>metadata = Some \<lparr>genres = [''Comedy''], themes = [''love''], mood = ''lighthearted'',
                                   target_audience = ''teens'', content_warnings = []\<rparr>,
                 raw_response = Some ''{"genres": ["Comedy"], "themes": ["love"], "mood": "lighthearted", "target_audience": "teens", "content_warnings": []}'',
                 retries = 0, success = True, error = None\<rparr>)
   \<and> extract_batch (sample_extractor mock_side_effect)
        ([[''title'' \<mapsto> ''A fun one'', ''description'' \<mapsto> ''A fun romantic comedy'']]
         @ [''title'' \<mapsto> ''Dark Days'', ''description'' \<mapsto> ''A grim tale''] # [])
        [Inr ''{"genres": ["Comedy"], "themes": ["love"], "mood": "lighthearted", "target_audience": "teens", "content_warnings": []}'',
         Inl (OtherError ''RateLimitError'')]
      = (Inl (OtherError ''RateLimitError''), [])\<close>
proof (rule conjI)
  let ?X = "sample_extractor mock_side_effect :: (exn + string) list NetflixExtractor"
  let ?items = "[[''title'' \<mapsto> ''Dark Days'', ''description'' \<mapsto> ''A grim tale''],
               [''description'' \<mapsto> ''A fun romantic comedy'']] :: (string \<rightharpoonup> string) list"
  let ?script = \<open>[Inr ''Not JSON'', Inr ''Not JSON'', Inr ''Not JSON'',
               Inr ''{"genres": ["Comedy"], "themes": ["love"], "mood": "lighthearted", "target_audience": "teens", "content_warnings": []}''] :: (exn + string) list\<close>
  have calls: "\<forall>i < length ?items. \<exists>env.
        fst (extract ?X (item_description (?items ! i)) (service_after ?X (take i ?items) ?script))
          = Inr env"
  proof (intro allI impI)
    fix i assume "i < length ?items"
    then have "i = 0 \<or> i = Suc 0" by auto
    then show "\<exists>env.
        fst (extract ?X (item_description (?items ! i)) (service_after ?X (take i ?items) ?script))
          = Inr env"
      by (auto simp: item_description_def side_effect_exhausted side_effect_valid_first)
  qed
  from extract_batch_one_per_item [THEN conjunct1, THEN mp, OF calls]
  obtain rs where batch: "extract_batch ?X ?items ?script = (Inr rs, service_after ?X ?items ?script)"
    and len: "length rs = length ?items"
    and each: "\<forall>i < length ?items.
                    title (rs ! i) = item_title i (?items ! i)
                    \<and> description (rs ! i) = item_description (?items ! i)
                    \<and> fst (extract ?X (item_description (?items ! i))
                             (service_after ?X (take i ?items) ?script))
                        = Inr (ExtractionResult.truncate (rs ! i))"
    by (elim exE conjE)
  have after: "service_after ?X ?items ?script = []"
    by (simp add: item_description_def side_effect_exhausted side_effect_valid_first)
  from each [THEN spec, of 0]
  have r0: "title (rs ! 0) = ''Dark Days'' \<and> description (rs ! 0) = ''A grim tale''
          \<and> ExtractionResult.truncate (rs ! 0)
              = \<lparr>metadata = None, raw_response = Some ''Not JSON'', retries = 2, success = False,
                 error = Some ''Invalid JSON response: Expecting value: line 1 column 1 (char 0)\<newline>Response was: Not JSON''\<rparr>"
    by (simp add: item_title_def item_description_def side_effect_exhausted)
  from each [THEN spec, of "Suc 0"]
  have r1: \<open>title (rs ! 1) = ''Item 2'' \<and> description (rs ! 1) = ''A fun romantic comedy''
          \<and> ExtractionResult.truncate (rs ! 1)
              = \<lparr>metadata = Some \<lparr>genres = [''Comedy''], themes = [''love''], mood = ''lighthearted'',
                                   target_audience = ''teens'', content_warnings = []\<rparr>,
                 raw_response = Some ''{"genres": ["Comedy"], "themes": ["love"], "mood": "lighthearted", "target_audience": "teens", "content_warnings": []}'',
                 retries = 0, success = True, error = None\<rparr>\<close>
    by (simp add: item_title_def item_description_def side_effect_exhausted
          side_effect_valid_first str_nat_two)
  from batch after have b: "extract_batch ?X ?items ?script = (Inr rs, [])" by simp
  from len have l: "length rs = 2" by simp
  show \<open>\<exists>rs. extract_batch ?X ?items ?script = (Inr rs, [])
          \<and> length rs = 2
          \<and> title (rs ! 0) = ''Dark Days'' \<and> description (rs ! 0) = ''A grim tale''
          \<and> ExtractionResult.truncate (rs ! 0)
              = \<lparr>metadata = None, raw_response = Some ''Not JSON'', retries = 2, success = False,
                 error = Some ''Invalid JSON response: Expecting value: line 1 column 1 (char 0)\<newline>Response was: Not JSON''\<rparr>
          \<and> title (rs ! 1) = ''Item 2'' \<and> description (rs ! 1) = ''A fun romantic comedy''
          \<and> ExtractionResult.truncate (rs ! 1)
              = \<lparr>metadata = Some \<lparr>genres = [''Comedy''], themes = [''love''], mood = ''lighthearted'',
                                   target_audience = ''teens'', content_warnings = []\<rparr>,
                 raw_response = Some ''{"genres": ["Comedy"], "themes": ["love"], "mood": "lighthearted", "target_audience": "teens", "content_warnings": []}'',
                 retries = 0, success = True, error = None\<rparr>\<close>
    using b l r0 r1 by (intro exI [of _ rs]) simp
next
  have first: \<open>extract_batch (sample_extractor mock_side_effect)
        [[''title'' \<mapsto> ''A fun one'', ''description'' \<mapsto> ''A fun romantic comedy'']]
        [Inr ''{"genres": ["Comedy"], "themes": ["love"], "mood": "lighthearted", "target_audience": "teens", "content_warnings": []}'',
         Inl (OtherError ''RateLimitError'')]
      = (Inr [with_item
                \<lparr>metadata = Some \<lparr>genres = [''Comedy''], themes = [''love''], mood = ''lighthearted'',
                                    target_audience = ''teens'', content_warnings = []\<rparr>,
                 raw_response = Some ''{"genres": ["Comedy"], "themes": ["love"], "mood": "lighthearted", "target_audience": "teens", "content_warnings": []}'',
                 retries = 0, success = True, error = None\<rparr>
                ''A fun one'' ''A fun romantic comedy''],
         [Inl (OtherError ''RateLimitError'')])\<close>
    by (simp add: extract_batch_def Let_def item_title_def item_description_def
          side_effect_valid_first)
  have second: "extract (sample_extractor mock_side_effect)
        (item_description [''title'' \<mapsto> ''Dark Days'', ''description'' \<mapsto> ''A grim tale''])
        [Inl (OtherError ''RateLimitError'')]
      = (Inl (OtherError ''RateLimitError''), [])"
    by (rule side_effect_raises_first)
  show \<open>extract_batch (sample_extractor mock_side_effect)
        ([[''title'' \<mapsto> ''A fun one'', ''description'' \<mapsto> ''A fun romantic comedy'']]
         @ [''title'' \<mapsto> ''Dark Days'', ''description'' \<mapsto> ''A grim tale''] # [])
        [Inr ''{"genres": ["Comedy"], "themes": ["love"], "mood": "lighthearted", "target_audience": "teens", "content_warnings": []}'',
         Inl (OtherError ''RateLimitError'')]
      = (Inl (OtherError ''RateLimitError''), [])\<close>
    by (rule extract_batch_one_per_item [THEN conjunct2, THEN mp, OF conjI [OF first second]])
qed

text \<open>
  Claim C9 as it is stated fails: when the call of the service fails with a connection
  error during the second item, the batch raises that error and returns no result at
  all, not even the one of the first item.
\<close>

theorem extract_batch_one_per_item_counterexample:
  \<open>extract_batch (sample_extractor mock_side_effect)
      [[''title'' \<mapsto> ''A fun one'', ''description'' \<mapsto> ''A fun romantic comedy''],
       [''title'' \<mapsto> ''Dark Days'', ''description'' \<mapsto> ''A grim tale'']]
      [Inr ''{"genres": ["Comedy"], "themes": ["love"], "mood": "lighthearted", "target_audience": "teens", "content_warnings": []}'',
       Inl (OtherError ''Connection error.'')]
    = (Inl (OtherError ''Connection error.''), [])\<close>
  by (simp add: extract_batch_def Let_def item_title_def item_description_def
        side_effect_valid_first side_effect_raises_first)

section \<open>The evaluation scorer\<close>

lemma truediv_nonzero [simp]: "b \<noteq> 0 \<Longrightarrow> truediv a b = Inr (a / b)"
  by (simp add: truediv_def)

lemma exn_bind_Inr [simp]: "exn_bind (Inr x) f = f x"
  by (simp add: exn_bind_def)

lemma exn_bind_Inl [simp]: "exn_bind (Inl e) f = Inl e"
  by (simp add: exn_bind_def)

lemma schema_compliance_rate_value:
  "schema_compliance_rate results =
     Inr (if results = [] then 0
          else real (length (filter (\<lambda>r. success r \<and> retries r = 0) results)) / real (length results) * 100)"
  by (simp add: schema_compliance_rate_def Let_def)

lemma overall_success_rate_value:
  "overall_success_rate results =
     Inr (if results = [] then 0
          else real (length (filter (\<lambda>r. success r) results)) / real (length results) * 100)"
  by (simp add: overall_success_rate_def Let_def)

lemma retry_rate_value:
  "retry_rate results =
     Inr (if results = [] then 0
          else real (length (filter (\<lambda>r. success r \<and> retries r > 0) results)) / real (length results) * 100)"
  by (simp add: retry_rate_def Let_def)

lemma overlap_score_value:
  "overlap_score xs ys =
     Inr (if set (map lower xs) = {} \<and> set (map lower ys) = {} then 1
          else real (card (set (map lower xs) \<inter> set (map lower ys)))
               / real (card (set (map lower xs) \<union> set (map lower ys))))"
proof -
  have "card (set (map lower xs) \<union> set (map lower ys)) \<noteq> 0"
    if "set (map lower xs) \<noteq> {} \<or> set (map lower ys) \<noteq> {}"
    using that by (simp del: set_map)
  then show ?thesis
    by (auto simp: overlap_score_def Let_def simp del: set_map)
qed

lemma average_score_value:
  "average_score scores =
     Inr (if scores = [] then 0 else sum_list scores / real (length scores) * 100)"
  by (simp add: average_score_def)

lemma genre_loop_no_zero_division:
  "genre_loop results df m t ds \<noteq> Inl ZeroDivisionError"
  by (induction results df m t ds rule: genre_loop.induct)
     (auto simp: Let_def split: option.splits list.splits)

lemma manual_loop_no_zero_division:
  "manual_loop results annotations fs cds \<noteq> Inl ZeroDivisionError"
  by (induction results annotations fs cds rule: manual_loop.induct)
     (auto simp: Let_def overlap_score_value split: option.splits)

lemma genre_accuracy_value:
  "genre_accuracy results df =
     (case genre_loop results df 0 0 [] of
        Inl e \<Rightarrow> Inl e
      | Inr (m, t, ds) \<Rightarrow>
          Inr \<lparr>accuracy = (if t > 0 then real m / real t * 100 else 0), matches = m, total = t,
               details = ds\<rparr>)"
  by (auto simp: genre_accuracy_def split: sum.splits)

lemma manual_accuracy_no_zero_division:
  "manual_accuracy results annotations \<noteq> Inl ZeroDivisionError"
proof (cases "manual_loop results annotations
                 \<lparr>fs_genres = [], fs_themes = [], fs_mood = [], fs_target_audience = [],
                  fs_content_warnings = []\<rparr> []")
  case (Inl e)
  with manual_loop_no_zero_division [of results annotations] show ?thesis
    by (auto simp: manual_accuracy_def)
next
  case (Inr p)
  then show ?thesis
    by (cases p) (simp add: manual_accuracy_def average_score_value)
qed

text \<open>
  Claim C10. On an empty list of results the three rates are 0.0, and a genre report
  with no comparable row has accuracy 0.0. No metric divides by zero: the three rates
  return a number on every list of results, \<^verbatim>\<open>genre_accuracy\<close> and
  \<^verbatim>\<open>manual_accuracy\<close> never fail with \<^verbatim>\<open>ZeroDivisionError\<close>, and with no annotation
  \<^verbatim>\<open>manual_accuracy\<close> reports the averages 0.0.
\<close>

theorem scorer_never_divides_by_zero:
  "schema_compliance_rate [] = Inr 0 \<and> overall_success_rate [] = Inr 0 \<and> retry_rate [] = Inr 0
   \<and> (genre_accuracy results df = Inr report \<and> total report = 0 \<longrightarrow> accuracy report = 0)
   \<and> (\<exists>x. schema_compliance_rate results = Inr x)
   \<and> (\<exists>x. overall_success_rate results = Inr x)
   \<and> (\<exists>x. retry_rate results = Inr x)
   \<and> genre_accuracy results df \<noteq> Inl ZeroDivisionError
   \<and> manual_accuracy results annotations \<noteq> Inl ZeroDivisionError
   \<and> manual_accuracy results [] =
       Inr \<lparr>average_scores =
              \<lparr>avg_genres = 0, avg_themes = 0, avg_mood = 0, avg_target_audience = 0,
               avg_content_warnings = 0, overall = 0\<rparr>,
            comparison_details = []\<rparr>"
proof -
  have empty: "schema_compliance_rate [] = Inr 0" "overall_success_rate [] = Inr 0" "retry_rate [] = Inr 0"
    by (simp_all add: schema_compliance_rate_value overall_success_rate_value retry_rate_value)
  have zero: "genre_accuracy results df = Inr report \<and> total report = 0 \<longrightarrow> accuracy report = 0"
    by (auto simp: genre_accuracy_value split: sum.splits)
  have rates: "\<exists>x. schema_compliance_rate results = Inr x" "\<exists>x. overall_success_rate results = Inr x"
      "\<exists>x. retry_rate results = Inr x"
    by (simp_all add: schema_compliance_rate_value overall_success_rate_value retry_rate_value)
  have genre: "genre_accuracy results df \<noteq> Inl ZeroDivisionError"
    using genre_loop_no_zero_division [of results df 0 0 "[]"]
    by (auto simp: genre_accuracy_value split: sum.splits)
  have manual: "manual_accuracy results annotations \<noteq> Inl ZeroDivisionError"
    by (rule manual_accuracy_no_zero_division)
  have none: "manual_accuracy results [] =
       Inr \<lparr>average_scores =
              \<lparr>avg_genres = 0, avg_themes = 0, avg_mood = 0, avg_target_audience = 0,
               avg_content_warnings = 0, overall = 0\<rparr>,
            comparison_details = []\<rparr>"
    by (simp add: manual_accuracy_def average_score_value)
  from empty zero rates genre manual none show ?thesis by simp
qed

lemma find_filter_hd:
  "find P xs = (case filter P xs of [] \<Rightarrow> None | x # _ \<Rightarrow> Some x)"
  by (induction xs) auto

lemma genre_loop_counts:
  assumes "well_formed results"
  shows "\<exists>ds'. genre_loop results df m t ds =
           Inr (m + length (filter genres_match (comparable_rows results df)),
                t + length (comparable_rows results df), ds')"
  using assms
proof (induction results arbitrary: m t ds)
  case Nil
  show ?case by (simp add: comparable_rows_def List.map_filter_simps)
next
  case (Cons r rest)
  then have wf: "well_formed rest" and r: "\<not> success r \<or> metadata r \<noteq> None"
    by (simp_all add: well_formed_def)
  show ?case
  proof (cases "success r")
    case False
    with Cons.IH [OF wf] show ?thesis
      by (simp add: comparable_rows_def List.map_filter_simps)
  next
    case True
    with r obtain md where md: "metadata r = Some md" by auto
    show ?thesis
    proof (cases "filter (\<lambda>row. Title row = title r) df")
      case Nil
      then have "find (\<lambda>row. Title row = title r) df = None"
        by (simp add: find_filter_hd)
      with True md Nil Cons.IH [OF wf] show ?thesis
        by (simp add: comparable_rows_def List.map_filter_simps)
    next
      case (Cons row more)
      then have f: "find (\<lambda>row. Title row = title r) df = Some row"
        by (simp add: find_filter_hd)
      have c: "comparable_rows (r # rest) df = (md, row) # comparable_rows rest df"
        using True md f by (simp add: comparable_rows_def List.map_filter_simps)
      have g: "card (set (map lower (genres md))
                     \<inter> set (map (\<lambda>g. lower (strip g)) (split_on CHR '','' (strip (lower (Type row)))))) > 0
               \<longleftrightarrow> genres_match (md, row)"
        by (simp add: genres_match_def label_genres_def card_gt_0_iff del: set_map)
      define m' where "m' = (if genres_match (md, row) then m + 1 else m)"
      define ds1 where "ds1 = ds @ [\<lparr>gd_title = title r, gd_extracted = map lower (genres md),
                                     gd_actual = map (\<lambda>g. lower (strip g))
                                                   (split_on CHR '','' (strip (lower (Type row)))),
                                     gd_match = genres_match (md, row)\<rparr>]"
      have step: "genre_loop (r # rest) df m t ds = genre_loop rest df m' (t + 1) ds1"
        using True md Cons g by (simp add: Let_def m'_def ds1_def del: set_map)
      from Cons.IH [OF wf, of m' "t + 1" ds1]
      obtain ds' where "genre_loop rest df m' (t + 1) ds1 =
           Inr (m' + length (filter genres_match (comparable_rows rest df)),
                t + 1 + length (comparable_rows rest df), ds')"
        by auto
      with step have "genre_loop (r # rest) df m t ds =
           Inr (m + length (filter genres_match (comparable_rows (r # rest) df)),
                t + length (comparable_rows (r # rest) df), ds')"
        unfolding c by (simp add: m'_def)
      then show ?thesis by (rule exI)
    qed
  qed
qed

text \<open>
  Claim C8, amended. For results whose successful members carry a record, the comparable
  rows are the successful results with a dataset row of their title (the first such row);
  a comparable row is a match exactly when the set of the lower-cased extracted genres
  meets the set of the pieces of the lower-cased label, split at the commas, each piece
  stripped of surrounding whitespace. \<open>total\<close> is the number of comparable rows,
  \<open>matches\<close> the number of matches, and \<open>accuracy\<close> is the percentage
  \<open>matches / total * 100\<close>, or 0.0 when there is no comparable row; results with no
  dataset row and failed results are not counted.
\<close>

theorem genre_accuracy_counts:
  assumes "well_formed results"
  shows "\<exists>report. genre_accuracy results df = Inr report
           \<and> total report = length (comparable_rows results df)
           \<and> matches report = length (filter genres_match (comparable_rows results df))
           \<and> accuracy report =
               (if total report = 0 then 0
                else real (matches report) / real (total report) * 100)"
proof -
  from genre_loop_counts [OF assms, of df 0 0 "[]"]
  obtain ds' where "genre_loop results df 0 0 [] =
           Inr (length (filter genres_match (comparable_rows results df)),
                length (comparable_rows results df), ds')"
    by auto
  then show ?thesis by (simp add: genre_accuracy_value)
qed

lemma overlap_score_jaccard:
  "overlap_score xs ys = Inr (jaccard (case_folded xs) (case_folded ys))"
  by (simp add: overlap_score_value jaccard_def case_folded_def del: set_map)

lemma manual_loop_scores:
  assumes "well_formed results"
  shows "\<exists>cds'. manual_loop results annotations fs cds =
           Inr (\<lparr>fs_genres = fs_genres fs @
                    map (\<lambda>(x, e). jaccard (case_folded (genres x)) (case_folded (genres e)))
                      (comparable_annotations results annotations),
                  fs_themes = fs_themes fs @
                    map (\<lambda>(x, e). jaccard (case_folded (themes x)) (case_folded (themes e)))
                      (comparable_annotations results annotations),
                  fs_mood = fs_mood fs @
                    map (\<lambda>(x, e). if lower (mood x) = lower (mood e) then 1 else 0)
                      (comparable_annotations results annotations),
                  fs_target_audience = fs_target_audience fs @
                    map (\<lambda>(x, e). if lower (target_audience x) = lower (target_audience e) then 1 else 0)
                      (comparable_annotations results annotations),
                  fs_content_warnings = fs_content_warnings fs @
                    map (\<lambda>(x, e). jaccard (case_folded (content_warnings x))
                                           (case_folded (content_warnings e)))
                      (comparable_annotations results annotations)\<rparr>, cds')"
proof (induction annotations arbitrary: fs cds)
  case Nil
  show ?case by (simp add: comparable_annotations_def List.map_filter_simps)
next
  case (Cons a rest)
  show ?case
  proof (cases "find (\<lambda>r. title r = a_title a) results")
    case None
    then have c: "comparable_annotations results (a # rest) = comparable_annotations results rest"
      by (simp add: comparable_annotations_def List.map_filter_simps)
    from None have "manual_loop results (a # rest) fs cds = manual_loop results rest fs cds"
      by simp
    with Cons.IH [of fs cds] show ?thesis unfolding c by simp
  next
    case (Some r)
    then have "r \<in> set results" by (auto simp: find_Some_iff)
    with assms have r: "\<not> success r \<or> metadata r \<noteq> None"
      by (simp add: well_formed_def list_all_iff)
    show ?thesis
    proof (cases "success r")
      case False
      with Some have c: "comparable_annotations results (a # rest) = comparable_annotations results rest"
        by (simp add: comparable_annotations_def List.map_filter_simps)
      from Some False have "manual_loop results (a # rest) fs cds = manual_loop results rest fs cds"
        by simp
      with Cons.IH [of fs cds] show ?thesis unfolding c by simp
    next
      case True
      with r obtain md where md: "metadata r = Some md" by auto
      have c: "comparable_annotations results (a # rest)
                 = (md, expected a) # comparable_annotations results rest"
        using Some True md by (simp add: comparable_annotations_def List.map_filter_simps)
      define fs1 where "fs1 =
         \<lparr>fs_genres = fs_genres fs @ [jaccard (case_folded (genres md)) (case_folded (genres (expected a)))],
          fs_themes = fs_themes fs @ [jaccard (case_folded (themes md)) (case_folded (themes (expected a)))],
          fs_mood = fs_mood fs @ [equal_score (mood md) (mood (expected a))],
          fs_target_audience = fs_target_audience fs
             @ [equal_score (target_audience md) (target_audience (expected a))],
          fs_content_warnings = fs_content_warnings fs
             @ [jaccard (case_folded (content_warnings md)) (case_folded (content_warnings (expected a)))]\<rparr>"
      define cds1 where "cds1 = cds @
         [\<lparr>cd_title = a_title a, cd_extracted = md, cd_expected = expected a,
           cd_scores =
             \<lparr>sc_genres = jaccard (case_folded (genres md)) (case_folded (genres (expected a))),
              sc_themes = jaccard (case_folded (themes md)) (case_folded (themes (expected a))),
              sc_mood = equal_score (mood md) (mood (expected a)),
              sc_target_audience = equal_score (target_audience md) (target_audience (expected a)),
              sc_content_warnings = jaccard (case_folded (content_warnings md))
                                      (case_folded (content_warnings (expected a)))\<rparr>\<rparr>]"
      have step: "manual_loop results (a # rest) fs cds = manual_loop results rest fs1 cds1"
        using Some True md by (simp add: overlap_score_jaccard Let_def fs1_def cds1_def)
      from Cons.IH [of fs1 cds1] obtain cds' where
        "manual_loop results rest fs1 cds1 =
           Inr (\<lparr>fs_genres = fs_genres fs1 @
                    map (\<lambda>(x, e). jaccard (case_folded (genres x)) (case_folded (genres e)))
                      (comparable_annotations results rest),
                  fs_themes = fs_themes fs1 @
                    map (\<lambda>(x, e). jaccard (case_folded (themes x)) (case_folded (themes e)))
                      (comparable_annotations results rest),
                  fs_mood = fs_mood fs1 @
                    map (\<lambda>(x, e). if lower (mood x) = lower (mood e) then 1 else 0)
                      (comparable_annotations results rest),
                  fs_target_audience = fs_target_audience fs1 @
                    map (\<lambda>(x, e). if lower (target_audience x) = lower (target_audience e) then 1 else 0)
                      (comparable_annotations results rest),
                  fs_content_warnings = fs_content_warnings fs1 @
                    map (\<lambda>(x, e). jaccard (case_folded (content_warnings x))
                                           (case_folded (content_warnings e)))
                      (comparable_annotations results rest)\<rparr>, cds')"
        by auto
      with step show ?thesis
        unfolding c by (simp add: fs1_def equal_score_def)
    qed
  qed
qed

text \<open>
  Claim C7, amended. For results whose successful members carry a record, an annotation
  is comparable when the first result with its title is successful. Each comparable
  annotation is scored per field: the Jaccard similarity of the lower-cased sets for
  genres, themes and content warnings (1 when both sets are empty), and 1 or 0 for the
  equality of the lower-cased texts of mood and target audience. Each field average is
  the mean of these scores over the comparable annotations as a percentage (times 100,
  and 0.0 when there is none), and the overall score is the sum of the five field
  averages divided by five.
\<close>

theorem manual_accuracy_scores:
  assumes "well_formed results"
  shows "\<exists>report. manual_accuracy results annotations = Inr report
           \<and> avg_genres (average_scores report) =
               mean_percent (map (\<lambda>(x, e). jaccard (case_folded (genres x)) (case_folded (genres e)))
                               (comparable_annotations results annotations))
           \<and> avg_themes (average_scores report) =
               mean_percent (map (\<lambda>(x, e). jaccard (case_folded (themes x)) (case_folded (themes e)))
                               (comparable_annotations results annotations))
           \<and> avg_mood (average_scores report) =
               mean_percent (map (\<lambda>(x, e). if lower (mood x) = lower (mood e) then 1 else 0)
                               (comparable_annotations results annotations))
           \<and> avg_target_audience (average_scores report) =
               mean_percent (map (\<lambda>(x, e). if lower (target_audience x) = lower (target_audience e)
                                              then 1 else 0)
                               (comparable_annotations results annotations))
           \<and> avg_content_warnings (average_scores report) =
               mean_percent (map (\<lambda>(x, e). jaccard (case_folded (content_warnings x))
                                                     (case_folded (content_warnings e)))
                               (comparable_annotations results annotations))
           \<and> overall (average_scores report) =
               (avg_genres (average_scores report) + avg_themes (average_scores report)
                + avg_mood (average_scores report) + avg_target_audience (average_scores report)
                + avg_content_warnings (average_scores report)) / 5"
proof -
  from manual_loop_scores [OF assms, of annotations
      "\<lparr>fs_genres = [], fs_themes = [], fs_mood = [], fs_target_audience = [],
        fs_content_warnings = []\<rparr>" "[]"]
  obtain cds' where "manual_loop results annotations
      \<lparr>fs_genres = [], fs_themes = [], fs_mood = [], fs_target_audience = [],
        fs_content_warnings = []\<rparr> [] =
           Inr (\<lparr>fs_genres =
                    map (\<lambda>(x, e). jaccard (case_folded (genres x)) (case_folded (genres e)))
                      (comparable_annotations results annotations),
                  fs_themes =
                    map (\<lambda>(x, e). jaccard (case_folded (themes x)) (case_folded (themes e)))
                      (comparable_annotations results annotations),
                  fs_mood =
                    map (\<lambda>(x, e). if lower (mood x) = lower (mood e) then 1 else 0)
                      (comparable_annotations results annotations),
                  fs_target_audience =
                    map (\<lambda>(x, e). if lower (target_audience x) = lower (target_audience e) then 1 else 0)
                      (comparable_annotations results annotations),
                  fs_content_warnings =
                    map (\<lambda>(x, e). jaccard (case_folded (content_warnings x))
                                           (case_folded (content_warnings e)))
                      (comparable_annotations results annotations)\<rparr>, cds')"
    by auto
  then show ?thesis
    by (simp add: manual_accuracy_def average_score_value mean_percent_def)
qed

lemma lower_samples:
  "lower ''Drama'' = ''drama''" "lower ''DRAMA'' = ''drama''" "lower ''Sci-Fi'' = ''sci-fi''"
  "lower ''Thriller'' = ''thriller''" "lower ''drama'' = ''drama''" "lower ''comedy'' = ''comedy''"
  "lower ''Drama, Thriller'' = ''drama, thriller''" "lower ''Movie'' = ''movie''"
  "lower ''Drama, Comedy'' = ''drama, comedy''" "lower '' Comedy'' = '' comedy''"
  "lower ''movie'' = ''movie''" "lower ''thriller'' = ''thriller''"
  "lower ''Dark'' = ''dark''" "lower ''dark'' = ''dark''" "lower ''tense'' = ''tense''"
  "lower ''eerie'' = ''eerie''" "lower ''adults'' = ''adults''" "lower ''survival'' = ''survival''"
  "lower ''violence'' = ''violence''" "lower ''gore'' = ''gore''"
  by code_simp+


text \<open>
  The theorem at a batch with no comparable row: one successful result whose title the
  dataset does not list, and one failed result.
\<close>

theorem scorer_never_divides_by_zero_witness:
  "genre_accuracy [succeeded ''Unlisted'' \<lparr>genres = [''Drama''], themes = [], mood = ''dark'',
                                             target_audience = ''adults'', content_warnings = []\<rparr>,
                   failed ''3%'']
      [\<lparr>Title = ''3%'', Type = ''Drama''\<rparr>]
     = Inr \<lparr>accuracy = 0, matches = 0, total = 0, details = []\<rparr>
   \<and> accuracy \<lparr>accuracy = 0, matches = 0, total = 0, details = []\<rparr> = 0"
proof -
  have run: "genre_accuracy [succeeded ''Unlisted'' \<lparr>genres = [''Drama''], themes = [], mood = ''dark'',
                                             target_audience = ''adults'', content_warnings = []\<rparr>,
                   failed ''3%'']
      [\<lparr>Title = ''3%'', Type = ''Drama''\<rparr>]
     = Inr \<lparr>accuracy = 0, matches = 0, total = 0, details = []\<rparr>"
    by (simp add: genre_accuracy_value succeeded_def failed_def Let_def)
  with scorer_never_divides_by_zero [where results = "[succeeded ''Unlisted'' \<lparr>genres = [''Drama''], themes = [], mood = ''dark'',
                                             target_audience = ''adults'', content_warnings = []\<rparr>,
                   failed ''3%'']"
      and df = "[\<lparr>Title = ''3%'', Type = ''Drama''\<rparr>]"
      and report = "\<lparr>accuracy = 0, matches = 0, total = 0, details = []\<rparr>"]
  show ?thesis by simp
qed

text \<open>
  The theorem at four results (two comparable, one match through the lower-casing, one
  title outside the dataset, one failure whose title is in the dataset).
\<close>

theorem genre_accuracy_counts_witness:
  "\<exists>report.
      genre_accuracy
        [succeeded ''3%'' \<lparr>genres = [''Sci-Fi'', ''DRAMA''], themes = [], mood = ''dark'',
                            target_audience = ''adults'', content_warnings = []\<rparr>,
         succeeded ''Unlisted'' \<lparr>genres = [''Drama''], themes = [], mood = ''dark'',
                                  target_audience = ''adults'', content_warnings = []\<rparr>,
         failed ''7:19'',
         succeeded ''23:59'' \<lparr>genres = [''Thriller''], themes = [], mood = ''eerie'',
                               target_audience = ''adults'', content_warnings = []\<rparr>]
        [\<lparr>Title = ''3%'', Type = ''Drama, Thriller''\<rparr>,
         \<lparr>Title = ''23:59'', Type = ''Movie''\<rparr>,
         \<lparr>Title = ''7:19'', Type = ''Drama''\<rparr>] = Inr report
      \<and> total report = 2 \<and> matches report = 1 \<and> accuracy report = 50"
  using genre_accuracy_counts [of
        "[succeeded ''3%'' \<lparr>genres = [''Sci-Fi'', ''DRAMA''], themes = [], mood = ''dark'',
                            target_audience = ''adults'', content_warnings = []\<rparr>,
         succeeded ''Unlisted'' \<lparr>genres = [''Drama''], themes = [], mood = ''dark'',
                                  target_audience = ''adults'', content_warnings = []\<rparr>,
         failed ''7:19'',
         succeeded ''23:59'' \<lparr>genres = [''Thriller''], themes = [], mood = ''eerie'',
                               target_audience = ''adults'', content_warnings = []\<rparr>]"
        "[\<lparr>Title = ''3%'', Type = ''Drama, Thriller''\<rparr>,
         \<lparr>Title = ''23:59'', Type = ''Movie''\<rparr>,
         \<lparr>Title = ''7:19'', Type = ''Drama''\<rparr>]"]
  by (auto simp: well_formed_def succeeded_def failed_def comparable_rows_def List.map_filter_simps
        genres_match_def label_genres_def lower_samples strip_def isspace_def)

text \<open>
  Claim C8 as it is stated fails. For the label \<open>Drama, Comedy\<close> and the extracted genre
  \<open>comedy\<close> the code reports a match and the accuracy 100.0; the set obtained by only
  splitting the label at the comma and lower-casing holds \<open>comedy\<close> with a blank in front
  and does not meet the extracted set, and matches divided by comparable rows is 1.
\<close>

theorem genre_accuracy_counts_counterexample:
  "map_sum id (\<lambda>r. (accuracy r, matches r, total r))
     (genre_accuracy [succeeded ''A'' \<lparr>genres = [''comedy''], themes = [], mood = ''dark'',
                                        target_audience = ''adults'', content_warnings = []\<rparr>]
        [\<lparr>Title = ''A'', Type = ''Drama, Comedy''\<rparr>])
     = Inr (100, 1, 1)
   \<and> set (map lower [''comedy'']) \<inter> set (map lower (split_on CHR '','' ''Drama, Comedy'')) = {}
   \<and> real 1 / real 1 \<noteq> 100"
  by (simp add: genre_accuracy_value succeeded_def Let_def lower_samples strip_def isspace_def)

text \<open>
  The theorem at three results and four annotations, two of them comparable: the field
  averages are 75, 100, 50, 100 and 0, and the overall score is 65.
\<close>

theorem manual_accuracy_scores_witness:
  "\<exists>report.
      manual_accuracy
        [succeeded ''A'' \<lparr>genres = [''Drama'', ''Thriller''], themes = [''survival''], mood = ''Dark'',
                           target_audience = ''adults'', content_warnings = []\<rparr>,
         succeeded ''B'' \<lparr>genres = [''Thriller''], themes = [], mood = ''tense'',
                           target_audience = ''adults'', content_warnings = [''gore'']\<rparr>,
         failed ''C'']
        [\<lparr>a_title = ''A'', a_description = ''first'',
          expected = \<lparr>genres = [''drama''], themes = [''survival''], mood = ''dark'',
                       target_audience = ''adults'', content_warnings = [''violence'']\<rparr>\<rparr>,
         \<lparr>a_title = ''B'', a_description = ''second'',
          expected = \<lparr>genres = [''thriller''], themes = [], mood = ''eerie'',
                       target_audience = ''adults'', content_warnings = [''violence'']\<rparr>\<rparr>,
         \<lparr>a_title = ''C'', a_description = ''third'',
          expected = \<lparr>genres = [''drama''], themes = [], mood = ''dark'',
                       target_audience = ''adults'', content_warnings = []\<rparr>\<rparr>,
         \<lparr>a_title = ''D'', a_description = ''fourth'',
          expected = \<lparr>genres = [''drama''], themes = [], mood = ''dark'',
                       target_audience = ''adults'', content_warnings = []\<rparr>\<rparr>] = Inr report
      \<and> avg_genres (average_scores report) = 75
      \<and> avg_themes (average_scores report) = 100
      \<and> avg_mood (average_scores report) = 50
      \<and> avg_target_audience (average_scores report) = 100
      \<and> avg_content_warnings (average_scores report) = 0
      \<and> overall (average_scores report) = 65"
  using manual_accuracy_scores [of
        "[succeeded ''A'' \<lparr>genres = [''Drama'', ''Thriller''], themes = [''survival''], mood = ''Dark'',
                           target_audience = ''adults'', content_warnings = []\<rparr>,
         succeeded ''B'' \<lparr>genres = [''Thriller''], themes = [], mood = ''tense'',
                           target_audience = ''adults'', content_warnings = [''gore'']\<rparr>,
         failed ''C'']"
        "[\<lparr>a_title = ''A'', a_description = ''first'',
          expected = \<lparr>genres = [''drama''], themes = [''survival''], mood = ''dark'',
                       target_audience = ''adults'', content_warnings = [''violence'']\<rparr>\<rparr>,
         \<lparr>a_title = ''B'', a_description = ''second'',
          expected = \<lparr>genres = [''thriller''], themes = [], mood = ''eerie'',
                       target_audience = ''adults'', content_warnings = [''violence'']\<rparr>\<rparr>,
         \<lparr>a_title = ''C'', a_description = ''third'',
          expected = \<lparr>genres = [''drama''], themes = [], mood = ''dark'',
                       target_audience = ''adults'', content_warnings = []\<rparr>\<rparr>,
         \<lparr>a_title = ''D'', a_description = ''fourth'',
          expected = \<lparr>genres = [''drama''], themes = [], mood = ''dark'',
                       target_audience = ''adults'', content_warnings = []\<rparr>\<rparr>]"]
  by (auto simp: well_formed_def succeeded_def failed_def comparable_annotations_def
        List.map_filter_simps mean_percent_def jaccard_def case_folded_def lower_samples
        insert_commute)

text \<open>
  Claim C7 as it is stated fails twice. An annotation whose title has a successful result
  behind a failed result of the same title is not scored (all averages are 0.0, no
  detail), although a matching successful result exists; and for one annotation that its
  result matches in every field the averages are 100.0, while each score, and so the
  mean of the scores, is 1.
\<close>

theorem manual_accuracy_scores_counterexample:
  "manual_accuracy
     [failed ''A'',
      succeeded ''A'' \<lparr>genres = [''Drama''], themes = [''survival''], mood = ''dark'',
                        target_audience = ''adults'', content_warnings = []\<rparr>]
     [\<lparr>a_title = ''A'', a_description = ''first'',
       expected = \<lparr>genres = [''Drama''], themes = [''survival''], mood = ''dark'',
                    target_audience = ''adults'', content_warnings = []\<rparr>\<rparr>]
     = Inr \<lparr>average_scores =
              \<lparr>avg_genres = 0, avg_themes = 0, avg_mood = 0, avg_target_audience = 0,
               avg_content_warnings = 0, overall = 0\<rparr>,
            comparison_details = []\<rparr>
   \<and> list_ex (\<lambda>r. title r = ''A'' \<and> success r)
        [failed ''A'',
         succeeded ''A'' \<lparr>genres = [''Drama''], themes = [''survival''], mood = ''dark'',
                           target_audience = ''adults'', content_warnings = []\<rparr>]
   \<and> map_sum id average_scores
        (manual_accuracy
           [succeeded ''A'' \<lparr>genres = [''Drama''], themes = [''survival''], mood = ''dark'',
                              target_audience = ''adults'', content_warnings = []\<rparr>]
           [\<lparr>a_title = ''A'', a_description = ''first'',
             expected = \<lparr>genres = [''Drama''], themes = [''survival''], mood = ''dark'',
                          target_audience = ''adults'', content_warnings = []\<rparr>\<rparr>])
     = Inr \<lparr>avg_genres = 100, avg_themes = 100, avg_mood = 100, avg_target_audience = 100,
            avg_content_warnings = 100, overall = 100\<rparr>
   \<and> jaccard (case_folded [''Drama'']) (case_folded [''Drama'']) = 1"
  by (simp add: manual_accuracy_def average_score_value overlap_score_value equal_score_def
        succeeded_def failed_def jaccard_def case_folded_def)

section \<open>The results of a batch are well formed\<close>

text \<open>The results that the scorer theorems ask for are the ones the batch runner returns:
  a successful result carries its record.\<close>

lemma extract_loop_success_has_metadata:
  "extract_loop self d atts prompt le raw s = (Inr env, s') \<Longrightarrow> \<not> success env \<or> metadata env \<noteq> None"
proof (induction atts arbitrary: prompt le raw s)
  case Nil
  then show ?case by auto
next
  case (Cons a atts)
  define p where "p = (if a > 0 then RETRY_PROMPT_format (str_last_error self le) d else prompt)"
  obtain r b s1 where tb: "try_body self p s = (r, b, s1)" by (cases "try_body self p s") auto
  show ?case
  proof (cases r)
    case (Inr md)
    with tb Cons.prems show ?thesis by (auto simp: p_def [symmetric] Let_def)
  next
    case (Inl e)
    with tb Cons.prems have "caught e"
      by (auto simp: p_def [symmetric] Let_def split: if_splits)
    with Inl tb Cons.prems Cons.IH show ?thesis
      by (auto simp: p_def [symmetric] Let_def)
  qed
qed

lemma extract_batch_loop_well_formed:
  "well_formed acc \<Longrightarrow> extract_batch_loop self k items acc s = (Inr rs, s') \<Longrightarrow> well_formed rs"
proof (induction items arbitrary: k acc s)
  case Nil
  then show ?case by simp
next
  case (Cons item rest)
  obtain r s1 where ex: "extract self (item_description item) s = (r, s1)"
    by (cases "extract self (item_description item) s") auto
  show ?case
  proof (cases r)
    case (Inl e)
    with ex Cons.prems show ?thesis by (simp add: Let_def)
  next
    case (Inr env)
    with ex have "\<not> success env \<or> metadata env \<noteq> None"
      using extract_loop_success_has_metadata by (fastforce simp: extract_def Let_def)
    with Cons.prems(1) have "well_formed (acc @ [with_item env (item_title k item) (item_description item)])"
      by (simp add: well_formed_def with_item_def)
    from Cons.IH [OF this] ex Inr Cons.prems(2) show ?thesis by (simp add: Let_def)
  qed
qed

lemma extract_batch_well_formed:
  "extract_batch self items s = (Inr rs, s') \<Longrightarrow> well_formed rs"
  using extract_batch_loop_well_formed [of "[]" self 0 items s rs s']
  by (simp add: extract_batch_def well_formed_def)

end
